theory Spec2Isabelle
  imports Complex_Main
begin

section \<open>The return-to-launch phase controller of the navigator (rtl.cpp)\<close>

text \<open>
  The development embeds \<^verbatim>\<open>src/modules/navigator/rtl.cpp\<close>: the class \<^verbatim>\<open>RTL\<close> with its
  members \<^verbatim>\<open>_rtl_state\<close>, \<^verbatim>\<open>_rtl_start_lock\<close>, the three cached parameters and the
  mission item it inherits from \<^verbatim>\<open>MissionBlock\<close>, and the part of the \<^verbatim>\<open>Navigator\<close> object
  that the file reads and writes through \<^verbatim>\<open>_navigator\<close>. Every member function becomes a
  function from the state before the call to the state after it.
\<close>

subsection \<open>Floating-point values\<close>

text \<open>
  The values of the C type \<^verbatim>\<open>float\<close> (IEEE 754 single precision): the not-a-number value,
  which the source writes itself (\<^verbatim>\<open>_mission_item.yaw = NAN\<close>), the two infinities, and the
  numbers. A number is carried as a real, so the latitudes and longitudes of type
  \<^verbatim>\<open>double\<close> fit too; the file does no arithmetic on them. The results of the operations
  below are single-precision numbers. The sign of zero is not modelled.
\<close>

datatype cfloat = NaN | MInf | Fin real | PInf

text \<open>
  The single-precision numbers: \<^verbatim>\<open>m * 2^e\<close> with \<^verbatim>\<open>|m| < 2^24\<close> and \<^verbatim>\<open>-149 <= e <= 104\<close>,
  written with \<^verbatim>\<open>k = e + 149\<close>.
\<close>

definition is_single :: "real \<Rightarrow> bool" where
  "is_single x \<longleftrightarrow>
     (\<exists>m :: int. \<exists>k :: nat. \<bar>m\<bar> < 2 ^ 24 \<and> k \<le> 253 \<and> x = of_int m * 2 ^ k / 2 ^ 149)"

text \<open>
  Rounding to the nearest single-precision value, ties to the even mantissa, as the default
  rounding mode does. \<open>round_half_even\<close> rounds to the nearest integer. \<open>single_from k y\<close>
  rounds the number \<^verbatim>\<open>y * 2^(k - 149)\<close>: it halves \<open>y\<close> until the mantissa fits into 24 bits,
  then rounds the mantissa; a result of magnitude \<^verbatim>\<open>2^128\<close> or more is the infinity of its
  sign.
\<close>

definition round_half_even :: "real \<Rightarrow> int" where
  "round_half_even y =
     (let f = \<lfloor>y\<rfloor>
      in if y - of_int f < 1 / 2 then f
         else if 1 / 2 < y - of_int f then f + 1
         else if even f then f else f + 1)"

function single_from :: "nat \<Rightarrow> real \<Rightarrow> cfloat" where
  "single_from k y =
     (if \<bar>y\<bar> < 2 ^ 24 then
        (let m = round_half_even y
         in if \<bar>m\<bar> = 2 ^ 24 \<and> k = 253 then (if 0 < y then PInf else MInf)
            else Fin (of_int m * 2 ^ k / 2 ^ 149))
      else if k < 253 then single_from (k + 1) (y / 2)
      else if 0 < y then PInf else MInf)"
  by pat_completeness auto
termination
  by (relation "measure (\<lambda>(k, y). 254 - k)") auto

definition round_single :: "real \<Rightarrow> cfloat" where
  "round_single x = single_from 0 (x * 2 ^ 149)"

text \<open>
  The operators of the source. Comparisons are C's: any comparison with \<open>NaN\<close> is false. The
  sum of two numbers is their exact sum rounded; the difference \<open>a - b\<close> is the sum of \<open>a\<close>
  and the negation of \<open>b\<close>, which is the same value.
\<close>

fun flt :: "cfloat \<Rightarrow> cfloat \<Rightarrow> bool" where
  "flt (Fin x) (Fin y) = (x < y)"
| "flt MInf (Fin y) = True"
| "flt MInf PInf = True"
| "flt (Fin x) PInf = True"
| "flt _ _ = False"

definition fgt :: "cfloat \<Rightarrow> cfloat \<Rightarrow> bool" where
  "fgt a b = flt b a"

fun fadd :: "cfloat \<Rightarrow> cfloat \<Rightarrow> cfloat" where
  "fadd (Fin x) (Fin y) = round_single (x + y)"
| "fadd NaN _ = NaN"
| "fadd _ NaN = NaN"
| "fadd PInf MInf = NaN"
| "fadd MInf PInf = NaN"
| "fadd PInf _ = PInf"
| "fadd _ PInf = PInf"
| "fadd MInf _ = MInf"
| "fadd _ MInf = MInf"

fun fneg :: "cfloat \<Rightarrow> cfloat" where
  "fneg (Fin x) = Fin (- x)"
| "fneg PInf = MInf"
| "fneg MInf = PInf"
| "fneg NaN = NaN"

definition fsub :: "cfloat \<Rightarrow> cfloat \<Rightarrow> cfloat" where
  "fsub a b = fadd a (fneg b)"

text \<open>
  \<^verbatim>\<open>#define DELAY_SIGMA 0.01f\<close> (line 56): the single-precision value nearest to one hundredth,
  \<^verbatim>\<open>10737418 * 2^(-30)\<close>, a little below it. The tolerance of the specification is this
  constant.
\<close>

definition DELAY_SIGMA :: cfloat where
  "DELAY_SIGMA = Fin (5368709 / 536870912)"

subsection \<open>Data\<close>

text \<open>The enumeration behind \<^verbatim>\<open>_rtl_state\<close>; the file names these seven values.\<close>

datatype RTLState =
    RTL_STATE_NONE
  | RTL_STATE_CLIMB
  | RTL_STATE_RETURN
  | RTL_STATE_DESCEND
  | RTL_STATE_LOITER
  | RTL_STATE_LAND
  | RTL_STATE_LANDED

text \<open>
  The navigation commands and origins the file assigns. The enumerations have further values,
  declared outside the file; \<open>NAV_CMD_other\<close> and \<open>ORIGIN_other\<close> stand for them, by number.
\<close>

datatype nav_cmd =
    NAV_CMD_WAYPOINT
  | NAV_CMD_LOITER_TIME_LIMIT
  | NAV_CMD_LOITER_UNLIMITED
  | NAV_CMD_other nat

datatype origin = ORIGIN_ONBOARD | ORIGIN_other nat

text \<open>
  \<^verbatim>\<open>struct mission_item_s\<close>, with the thirteen fields the file assigns. The record's extension
  slot holds whatever else the structure has.
\<close>

record mission_item =
  lat :: cfloat
  lon :: cfloat
  altitude_is_relative :: bool
  altitude :: cfloat
  yaw :: cfloat
  loiter_radius :: cfloat
  loiter_direction :: int
  nav_cmd :: nav_cmd
  acceptance_radius :: cfloat
  time_inside :: cfloat
  pitch_min :: cfloat
  autocontinue :: bool
  origin :: origin

text \<open>
  \<^verbatim>\<open>struct position_setpoint_s\<close> (fields \<^verbatim>\<open>valid\<close>, \<^verbatim>\<open>lat\<close>, \<^verbatim>\<open>lon\<close> are the ones the file
  touches) and the triplet \<^verbatim>\<open>previous\<close>, \<^verbatim>\<open>current\<close>, \<^verbatim>\<open>next\<close>.
\<close>

record position_setpoint =
  sp_valid :: bool
  sp_lat :: cfloat
  sp_lon :: cfloat

record 'p position_setpoint_triplet =
  tr_previous :: "'p position_setpoint_scheme"
  tr_current :: "'p position_setpoint_scheme"
  tr_next :: "'p position_setpoint_scheme"

text \<open>What the file reads of the global position and of the home position.\<close>

record global_position =
  gp_lat :: cfloat
  gp_lon :: cfloat
  gp_alt :: cfloat

record home_position =
  home_lat :: cfloat
  home_lon :: cfloat
  home_alt :: cfloat
  home_yaw :: cfloat

text \<open>
  The object behind \<^verbatim>\<open>_navigator\<close>: \<^verbatim>\<open>get_vstatus()->condition_landed\<close>,
  \<^verbatim>\<open>get_global_position()\<close>, \<^verbatim>\<open>get_home_position()\<close>, \<^verbatim>\<open>get_loiter_radius()\<close>,
  \<^verbatim>\<open>get_acceptance_radius()\<close>, \<^verbatim>\<open>get_position_setpoint_triplet()\<close>, the flag behind
  \<^verbatim>\<open>get_can_loiter_at_sp()\<close> and \<^verbatim>\<open>set_can_loiter_at_sp()\<close>, and the flag that
  \<^verbatim>\<open>set_position_setpoint_triplet_updated()\<close> raises.
\<close>

record 'p navigator =
  condition_landed :: bool
  global_position :: global_position
  home_position :: home_position
  nav_loiter_radius :: cfloat
  nav_acceptance_radius :: cfloat
  pos_sp_triplet :: "'p position_setpoint_triplet"
  can_loiter_at_sp :: bool
  pos_sp_triplet_updated :: bool

text \<open>
  The parameter store's values of \<^verbatim>\<open>RTL_RETURN_ALT\<close>, \<^verbatim>\<open>RTL_DESCEND_ALT\<close> and
  \<^verbatim>\<open>RTL_LAND_DELAY\<close>.
\<close>

record rtl_params =
  RTL_RETURN_ALT :: cfloat
  RTL_DESCEND_ALT :: cfloat
  RTL_LAND_DELAY :: cfloat

text \<open>
  An advisory handed to \<^verbatim>\<open>mavlink_log_critical\<close>: the format string and its numeric arguments,
  recorded before the \<^verbatim>\<open>(int)\<close> and \<^verbatim>\<open>(double)\<close> conversions of the call.
\<close>

type_synonym advisory = "string \<times> cfloat list"

text \<open>
  The state the member functions work on. \<open>rtl_state\<close>, \<open>rtl_start_lock\<close> and the three
  \<open>param_\<close> fields are the members of \<^verbatim>\<open>RTL\<close> (a \<open>param_\<close> field is what \<^verbatim>\<open>.get()\<close> returns: the
  value cached at the last \<^verbatim>\<open>updateParams()\<close>); \<open>mission_item\<close> is the inherited
  \<^verbatim>\<open>_mission_item\<close>; \<open>mission_block\<close> is the private bookkeeping of the base class
  \<^verbatim>\<open>MissionBlock\<close> for reach detection, of a type \<open>'b\<close> left open; \<open>navigator\<close> is the object
  \<^verbatim>\<open>_navigator\<close> points to; \<open>param_store\<close> is the external parameter store; \<open>mavlink_log\<close> is
  the list of advisories emitted so far, oldest first.
\<close>

record ('m, 'p, 'n, 'b) rtl =
  rtl_state :: RTLState
  rtl_start_lock :: bool
  param_return_alt :: cfloat
  param_descend_alt :: cfloat
  param_land_delay :: cfloat
  mission_item :: "'m mission_item_scheme"
  mission_block :: 'b
  navigator :: "('p, 'n) navigator_scheme"
  param_store :: rtl_params
  mavlink_log :: "advisory list"

subsection \<open>Functions of the repository that the file calls and does not define\<close>

text \<open>
  The helpers of \<^verbatim>\<open>MissionBlock\<close> and of the geo library are parameters of the model, collected
  in one record. Their types state what each may read and write: the bearing is a pure
  function of two positions; \<^verbatim>\<open>set_previous_pos_setpoint\<close> rewrites the setpoint triplet;
  \<^verbatim>\<open>set_land_item\<close> (called with \<^verbatim>\<open>false\<close> for its second argument) and \<^verbatim>\<open>set_idle_item\<close>
  rewrite the mission item they are given and may read the navigator;
  \<^verbatim>\<open>mission_item_to_position_setpoint\<close> rewrites the setpoint it is given from the item and
  may read the navigator; \<^verbatim>\<open>is_mission_item_reached\<close> reads the navigator and the item, answers,
  and may update the base class's bookkeeping; \<^verbatim>\<open>reset_mission_item_reached\<close> rewrites that
  bookkeeping. None of them can reach \<^verbatim>\<open>_rtl_state\<close> or \<^verbatim>\<open>_rtl_start_lock\<close>, which are
  members of the derived class.
\<close>

record ('m, 'p, 'n, 'b) helpers =
  get_bearing_to_next_waypoint :: "cfloat \<Rightarrow> cfloat \<Rightarrow> cfloat \<Rightarrow> cfloat \<Rightarrow> cfloat"
  set_previous_pos_setpoint :: "'p position_setpoint_triplet \<Rightarrow> 'p position_setpoint_triplet"
  set_land_item ::
    "('p, 'n) navigator_scheme \<Rightarrow> 'm mission_item_scheme \<Rightarrow> bool \<Rightarrow> 'm mission_item_scheme"
  set_idle_item :: "('p, 'n) navigator_scheme \<Rightarrow> 'm mission_item_scheme \<Rightarrow> 'm mission_item_scheme"
  mission_item_to_position_setpoint ::
    "('p, 'n) navigator_scheme \<Rightarrow> 'm mission_item_scheme \<Rightarrow> 'p position_setpoint_scheme
      \<Rightarrow> 'p position_setpoint_scheme"
  is_mission_item_reached ::
    "('p, 'n) navigator_scheme \<Rightarrow> 'm mission_item_scheme \<Rightarrow> 'b \<Rightarrow> bool \<times> 'b"
  reset_mission_item_reached :: "'b \<Rightarrow> 'b"

text \<open>
  Modelled from the spec: \<^verbatim>\<open>updateParams()\<close>, inherited from the parameter framework and not
  part of the file. The specification says that the target computation "refreshes parameters
  from the external store first" and that the store "must be re-queried at the start of
  every target computation": the three cached values are overwritten by the store's.
\<close>

definition updateParams :: "('m, 'p, 'n, 'b) rtl \<Rightarrow> ('m, 'p, 'n, 'b) rtl" where
  "updateParams s =
     s\<lparr>param_return_alt := RTL_RETURN_ALT (param_store s),
       param_descend_alt := RTL_DESCEND_ALT (param_store s),
       param_land_delay := RTL_LAND_DELAY (param_store s)\<rparr>"

text \<open>
  Modelled from the spec: \<^verbatim>\<open>mavlink_log_critical(...)\<close>, a macro of the logging library.
  The specification's advisory sink "accepts a severity-tagged formatted message;
  fire-and-forget, no return value consulted": the advisory is appended to the log.
\<close>

definition mavlink_log_critical ::
  "string \<Rightarrow> cfloat list \<Rightarrow> ('m, 'p, 'n, 'b) rtl \<Rightarrow> ('m, 'p, 'n, 'b) rtl" where
  "mavlink_log_critical fmt args s = s\<lparr>mavlink_log := mavlink_log s @ [(fmt, args)]\<rparr>"

text \<open>
  Modelled from the spec: \<^verbatim>\<open>Navigator::set_can_loiter_at_sp\<close> and
  \<^verbatim>\<open>Navigator::get_can_loiter_at_sp\<close>, declared in the navigator's header. The
  specification's navigation context exposes a mutator "to mark whether loitering-in-place is
  currently permitted": one flag of the navigator, which the getter reads (the field
  \<open>can_loiter_at_sp\<close>).
\<close>

definition set_can_loiter_at_sp :: "bool \<Rightarrow> ('m, 'p, 'n, 'b) rtl \<Rightarrow> ('m, 'p, 'n, 'b) rtl" where
  "set_can_loiter_at_sp b s = s\<lparr>navigator := (navigator s)\<lparr>can_loiter_at_sp := b\<rparr>\<rparr>"

text \<open>
  Modelled from the spec: \<^verbatim>\<open>Navigator::set_position_setpoint_triplet_updated\<close>, declared in
  the navigator's header. The specification's navigation context exposes a mutator "to mark
  the triplet updated": the flag \<open>pos_sp_triplet_updated\<close> of the navigator is raised.
\<close>

definition set_position_setpoint_triplet_updated ::
  "('m, 'p, 'n, 'b) rtl \<Rightarrow> ('m, 'p, 'n, 'b) rtl" where
  "set_position_setpoint_triplet_updated s =
     s\<lparr>navigator := (navigator s)\<lparr>pos_sp_triplet_updated := True\<rparr>\<rparr>"

subsection \<open>\<^verbatim>\<open>RTL::on_inactive\<close> (lines 76 to 83)\<close>

definition on_inactive :: "('m, 'p, 'n, 'b) rtl \<Rightarrow> ('m, 'p, 'n, 'b) rtl" where
  "on_inactive s =
     (if \<not> can_loiter_at_sp (navigator s) then s\<lparr>rtl_state := RTL_STATE_NONE\<rparr> else s)"

subsection \<open>\<^verbatim>\<open>RTL::advance_rtl\<close> (lines 272 to 305)\<close>

definition advance_rtl :: "('m, 'p, 'n, 'b) rtl \<Rightarrow> ('m, 'p, 'n, 'b) rtl" where
  "advance_rtl s =
     (case rtl_state s of
        RTL_STATE_CLIMB \<Rightarrow> s\<lparr>rtl_state := RTL_STATE_RETURN\<rparr>
      | RTL_STATE_RETURN \<Rightarrow> s\<lparr>rtl_state := RTL_STATE_DESCEND\<rparr>
      | RTL_STATE_DESCEND \<Rightarrow>
          (if flt (param_land_delay s) (fneg DELAY_SIGMA) \<or> fgt (param_land_delay s) DELAY_SIGMA
           then s\<lparr>rtl_state := RTL_STATE_LOITER\<rparr>
           else s\<lparr>rtl_state := RTL_STATE_LAND\<rparr>)
      | RTL_STATE_LOITER \<Rightarrow> s\<lparr>rtl_state := RTL_STATE_LAND\<rparr>
      | RTL_STATE_LAND \<Rightarrow> s\<lparr>rtl_state := RTL_STATE_LANDED\<rparr>
      | _ \<Rightarrow> s)"

subsection \<open>\<^verbatim>\<open>RTL::set_rtl_item\<close> (lines 124 to 270)\<close>

text \<open>
  The function is embedded in three parts, run one after the other. The first is lines 127
  to 136: the parameters are refreshed, the previous setpoint is captured unless the start
  lock is set, and the navigator is told that it cannot loiter at the setpoint. The pointer
  \<^verbatim>\<open>pos_sp_triplet\<close> taken at line 127 points into the navigator, so the later reads through
  it see the triplet as \<^verbatim>\<open>set_previous_pos_setpoint\<close> left it.
\<close>

definition set_rtl_item_head ::
  "('m, 'p, 'n, 'b) helpers \<Rightarrow> ('m, 'p, 'n, 'b) rtl \<Rightarrow> ('m, 'p, 'n, 'b) rtl" where
  "set_rtl_item_head X s =
     (let s1 = updateParams s;
          s2 = (if \<not> rtl_start_lock s1
                then s1\<lparr>navigator := (navigator s1)
                        \<lparr>pos_sp_triplet := set_previous_pos_setpoint X (pos_sp_triplet (navigator s1))\<rparr>\<rparr>
                else s1)
      in set_can_loiter_at_sp False s2)"

text \<open>The second part is the \<^verbatim>\<open>switch\<close> on \<^verbatim>\<open>_rtl_state\<close>, lines 138 to 261.\<close>

definition set_rtl_item_switch ::
  "('m, 'p, 'n, 'b) helpers \<Rightarrow> ('m, 'p, 'n, 'b) rtl \<Rightarrow> ('m, 'p, 'n, 'b) rtl" where
  "set_rtl_item_switch X s =
     (let nav = navigator s; home = home_position nav; pos = global_position nav;
          item = mission_item s
      in case rtl_state s of
        RTL_STATE_CLIMB \<Rightarrow>
          (let climb_alt = fadd (home_alt home) (param_return_alt s)
           in mavlink_log_critical ''RTL: climb to %d m (%d m above home)''
                [climb_alt, fsub climb_alt (home_alt home)]
                (s\<lparr>mission_item := item
                    \<lparr>lat := gp_lat pos,
                     lon := gp_lon pos,
                     altitude_is_relative := False,
                     altitude := climb_alt,
                     yaw := NaN,
                     loiter_radius := nav_loiter_radius nav,
                     loiter_direction := 1,
                     nav_cmd := NAV_CMD_WAYPOINT,
                     acceptance_radius := nav_acceptance_radius nav,
                     time_inside := Fin 0,
                     pitch_min := Fin 0,
                     autocontinue := True,
                     origin := ORIGIN_ONBOARD\<rparr>\<rparr>))
      | RTL_STATE_RETURN \<Rightarrow>
          (let previous = tr_previous (pos_sp_triplet nav);
               item1 = item\<lparr>lat := home_lat home, lon := home_lon home\<rparr>;
               item2 =
                 (if sp_valid previous
                  then item1\<lparr>yaw := get_bearing_to_next_waypoint X
                                (sp_lat previous) (sp_lon previous) (lat item1) (lon item1)\<rparr>
                  else item1\<lparr>yaw := get_bearing_to_next_waypoint X
                                (gp_lat pos) (gp_lon pos) (lat item1) (lon item1)\<rparr>);
               item3 = item2
                 \<lparr>loiter_radius := nav_loiter_radius nav,
                  loiter_direction := 1,
                  nav_cmd := NAV_CMD_WAYPOINT,
                  acceptance_radius := nav_acceptance_radius nav,
                  time_inside := Fin 0,
                  pitch_min := Fin 0,
                  autocontinue := True,
                  origin := ORIGIN_ONBOARD\<rparr>
           in (mavlink_log_critical ''RTL: return at %d m (%d m above home)''
                 [altitude item3, fsub (altitude item3) (home_alt home)]
                 (s\<lparr>mission_item := item3\<rparr>))\<lparr>rtl_start_lock := True\<rparr>)
      | RTL_STATE_DESCEND \<Rightarrow>
          (let item1 = item
                 \<lparr>lat := home_lat home,
                  lon := home_lon home,
                  altitude_is_relative := False,
                  altitude := fadd (home_alt home) (param_descend_alt s),
                  yaw := home_yaw home,
                  loiter_radius := nav_loiter_radius nav,
                  loiter_direction := 1,
                  nav_cmd := NAV_CMD_LOITER_TIME_LIMIT,
                  acceptance_radius := nav_acceptance_radius nav,
                  time_inside := Fin 0,
                  pitch_min := Fin 0,
                  autocontinue := False,
                  origin := ORIGIN_ONBOARD\<rparr>
           in mavlink_log_critical ''RTL: descend to %d m (%d m above home)''
                [altitude item1, fsub (altitude item1) (home_alt home)]
                (s\<lparr>mission_item := item1\<rparr>))
      | RTL_STATE_LOITER \<Rightarrow>
          (let autoland = fgt (param_land_delay s) (fneg DELAY_SIGMA);
               item1 = item
                 \<lparr>lat := home_lat home,
                  lon := home_lon home,
                  altitude_is_relative := False,
                  altitude := fadd (home_alt home) (param_descend_alt s),
                  yaw := home_yaw home,
                  loiter_radius := nav_loiter_radius nav,
                  loiter_direction := 1,
                  nav_cmd := (if autoland then NAV_CMD_LOITER_TIME_LIMIT
                              else NAV_CMD_LOITER_UNLIMITED),
                  acceptance_radius := nav_acceptance_radius nav,
                  time_inside := (if flt (param_land_delay s) (Fin 0) then Fin 0
                                  else param_land_delay s),
                  pitch_min := Fin 0,
                  autocontinue := autoland,
                  origin := ORIGIN_ONBOARD\<rparr>;
               s1 = set_can_loiter_at_sp True (s\<lparr>mission_item := item1\<rparr>)
           in if autoland
              then mavlink_log_critical ''RTL: loiter %.1fs'' [time_inside item1] s1
              else mavlink_log_critical ''RTL: completed, loiter'' [] s1)
      | RTL_STATE_LAND \<Rightarrow>
          mavlink_log_critical ''RTL: land at home'' []
            (s\<lparr>mission_item := set_land_item X nav item False\<rparr>)
      | RTL_STATE_LANDED \<Rightarrow>
          mavlink_log_critical ''RTL: completed, landed'' []
            (s\<lparr>mission_item := set_idle_item X nav item\<rparr>)
      | RTL_STATE_NONE \<Rightarrow> s)"

text \<open>
  The third part is lines 263 to 269, after the \<^verbatim>\<open>switch\<close>: the reach bookkeeping is reset,
  the mission item is converted into the triplet's current setpoint, the next setpoint is
  marked invalid and the navigator is told that the triplet changed.
\<close>

definition set_rtl_item_tail ::
  "('m, 'p, 'n, 'b) helpers \<Rightarrow> ('m, 'p, 'n, 'b) rtl \<Rightarrow> ('m, 'p, 'n, 'b) rtl" where
  "set_rtl_item_tail X s =
     (let s1 = s\<lparr>mission_block := reset_mission_item_reached X (mission_block s)\<rparr>;
          nav = navigator s1; t = pos_sp_triplet nav;
          t1 = t\<lparr>tr_current :=
                  mission_item_to_position_setpoint X nav (mission_item s1) (tr_current t)\<rparr>;
          t2 = t1\<lparr>tr_next := (tr_next t1)\<lparr>sp_valid := False\<rparr>\<rparr>
      in set_position_setpoint_triplet_updated (s1\<lparr>navigator := nav\<lparr>pos_sp_triplet := t2\<rparr>\<rparr>))"

definition set_rtl_item ::
  "('m, 'p, 'n, 'b) helpers \<Rightarrow> ('m, 'p, 'n, 'b) rtl \<Rightarrow> ('m, 'p, 'n, 'b) rtl" where
  "set_rtl_item X s = set_rtl_item_tail X (set_rtl_item_switch X (set_rtl_item_head X s))"

subsection \<open>\<^verbatim>\<open>RTL::on_activation\<close> (lines 85 to 113)\<close>

text \<open>
  The entry decision, lines 88 to 110. The comparison reads the return altitude cached at the
  last refresh: \<^verbatim>\<open>updateParams()\<close> runs only afterwards, inside \<^verbatim>\<open>set_rtl_item()\<close>.
\<close>

definition on_activation_decide :: "('m, 'p, 'n, 'b) rtl \<Rightarrow> ('m, 'p, 'n, 'b) rtl" where
  "on_activation_decide s =
     (let nav = navigator s
      in if rtl_state s = RTL_STATE_NONE then
           (if condition_landed nav then
              mavlink_log_critical ''no RTL when landed'' [] (s\<lparr>rtl_state := RTL_STATE_LANDED\<rparr>)
            else if flt (gp_alt (global_position nav))
                        (fadd (home_alt (home_position nav)) (param_return_alt s)) then
              s\<lparr>rtl_state := RTL_STATE_CLIMB, rtl_start_lock := False\<rparr>
            else
              s\<lparr>rtl_state := RTL_STATE_RETURN,
                mission_item := (mission_item s)
                  \<lparr>altitude_is_relative := False, altitude := gp_alt (global_position nav)\<rparr>,
                rtl_start_lock := False\<rparr>)
         else s)"

definition on_activation ::
  "('m, 'p, 'n, 'b) helpers \<Rightarrow> ('m, 'p, 'n, 'b) rtl \<Rightarrow> ('m, 'p, 'n, 'b) rtl" where
  "on_activation X s = set_rtl_item X (on_activation_decide s)"

subsection \<open>\<^verbatim>\<open>RTL::on_active\<close> (lines 115 to 122)\<close>

text \<open>
  The \<^verbatim>\<open>&&\<close> of line 118 is lazy: \<^verbatim>\<open>is_mission_item_reached()\<close> is not called in the state
  \<^verbatim>\<open>RTL_STATE_LANDED\<close>.
\<close>

definition on_active ::
  "('m, 'p, 'n, 'b) helpers \<Rightarrow> ('m, 'p, 'n, 'b) rtl \<Rightarrow> ('m, 'p, 'n, 'b) rtl" where
  "on_active X s =
     (if rtl_state s \<noteq> RTL_STATE_LANDED then
        (let (reached, b) = is_mission_item_reached X (navigator s) (mission_item s) (mission_block s);
             s1 = s\<lparr>mission_block := b\<rparr>
         in if reached then set_rtl_item X (advance_rtl s1) else s1)
      else s)"

subsection \<open>The constructor \<^verbatim>\<open>RTL::RTL\<close> (lines 58 to 70)\<close>

text \<open>
  The object starts in \<^verbatim>\<open>RTL_STATE_NONE\<close> with the start lock clear, loads its parameters and
  calls \<^verbatim>\<open>on_inactive()\<close>. The navigator, the mission item and the bookkeeping the base
  class's constructor leaves, the parameter store and the log are arguments.
\<close>

definition RTL_ctor ::
  "('p, 'n) navigator_scheme \<Rightarrow> 'm mission_item_scheme \<Rightarrow> 'b \<Rightarrow> rtl_params \<Rightarrow> advisory list
    \<Rightarrow> ('m, 'p, 'n, 'b) rtl" where
  "RTL_ctor nav item b store lg =
     on_inactive (updateParams
       \<lparr>rtl_state = RTL_STATE_NONE,
        rtl_start_lock = False,
        param_return_alt = RTL_RETURN_ALT store,
        param_descend_alt = RTL_DESCEND_ALT store,
        param_land_delay = RTL_LAND_DELAY store,
        mission_item = item,
        mission_block = b,
        navigator = nav,
        param_store = store,
        mavlink_log = lg\<rparr>)"

subsection \<open>Guidance cycles\<close>

text \<open>
  Between two calls of the hooks the rest of the system runs: it may rewrite anything in the
  navigator (positions, the landed flag, the triplet, the loiter permission) and in the
  parameter store, and nothing in the members of the \<^verbatim>\<open>RTL\<close> object. A cycle is such a change
  followed by one hook; a run is a list of cycles.
\<close>

datatype hook = OnInactive | OnActivation | OnActive

type_synonym ('p, 'n) surroundings =
  "(('p, 'n) navigator_scheme \<Rightarrow> ('p, 'n) navigator_scheme) \<times> (rtl_params \<Rightarrow> rtl_params)"

definition surround ::
  "('p, 'n) surroundings \<Rightarrow> ('m, 'p, 'n, 'b) rtl \<Rightarrow> ('m, 'p, 'n, 'b) rtl" where
  "surround e s = s\<lparr>navigator := fst e (navigator s), param_store := snd e (param_store s)\<rparr>"

fun call_hook ::
  "('m, 'p, 'n, 'b) helpers \<Rightarrow> hook \<Rightarrow> ('m, 'p, 'n, 'b) rtl \<Rightarrow> ('m, 'p, 'n, 'b) rtl" where
  "call_hook X OnInactive s = on_inactive s"
| "call_hook X OnActivation s = on_activation X s"
| "call_hook X OnActive s = on_active X s"

definition cycle ::
  "('m, 'p, 'n, 'b) helpers \<Rightarrow> ('p, 'n) surroundings \<times> hook \<Rightarrow> ('m, 'p, 'n, 'b) rtl
    \<Rightarrow> ('m, 'p, 'n, 'b) rtl" where
  "cycle X c s = call_hook X (snd c) (surround (fst c) s)"

fun run ::
  "('m, 'p, 'n, 'b) helpers \<Rightarrow> (('p, 'n) surroundings \<times> hook) list \<Rightarrow> ('m, 'p, 'n, 'b) rtl
    \<Rightarrow> ('m, 'p, 'n, 'b) rtl" where
  "run X [] s = s"
| "run X (c # cs) s = run X cs (cycle X c s)"

text \<open>
  The position of a phase in the order \<^verbatim>\<open>NONE\<close>, \<^verbatim>\<open>CLIMB\<close>, \<^verbatim>\<open>RETURN\<close>, \<^verbatim>\<open>DESCEND\<close>,
  \<^verbatim>\<open>LOITER\<close>, \<^verbatim>\<open>LAND\<close>, \<^verbatim>\<open>LANDED\<close>, which is the order of the enumeration's use in
  \<^verbatim>\<open>advance_rtl\<close>.
\<close>

fun phase_rank :: "RTLState \<Rightarrow> nat" where
  "phase_rank RTL_STATE_NONE = 0"
| "phase_rank RTL_STATE_CLIMB = 1"
| "phase_rank RTL_STATE_RETURN = 2"
| "phase_rank RTL_STATE_DESCEND = 3"
| "phase_rank RTL_STATE_LOITER = 4"
| "phase_rank RTL_STATE_LAND = 5"
| "phase_rank RTL_STATE_LANDED = 6"

subsection \<open>A sample configuration\<close>

text \<open>
  The example of the specification: home at latitude 0, longitude 0 and altitude 100, return
  altitude 50, the vehicle airborne at altitude 80 over home. The helpers are simple instances
  of the parameters: the bookkeeping is one latch that is set once the vehicle is at the
  item's position and altitude, the previous setpoint is captured from a valid current one,
  and the conversion copies the position.
\<close>

definition example_helpers :: "(unit, unit, unit, bool) helpers" where
  "example_helpers =
     \<lparr>get_bearing_to_next_waypoint = (\<lambda>lat1 lon1 lat2 lon2. fsub lon2 lon1),
      set_previous_pos_setpoint =
        (\<lambda>t. if sp_valid (tr_current t) then t\<lparr>tr_previous := tr_current t\<rparr> else t),
      set_land_item = (\<lambda>nav item at_current.
        item\<lparr>lat := home_lat (home_position nav), lon := home_lon (home_position nav),
             nav_cmd := NAV_CMD_other 21\<rparr>),
      set_idle_item = (\<lambda>nav item. item\<lparr>nav_cmd := NAV_CMD_other 0\<rparr>),
      mission_item_to_position_setpoint =
        (\<lambda>nav item sp. sp\<lparr>sp_valid := True, sp_lat := lat item, sp_lon := lon item\<rparr>),
      is_mission_item_reached = (\<lambda>nav item b.
        (let r = (b \<or> (gp_lat (global_position nav) = lat item \<and>
                        gp_lon (global_position nav) = lon item \<and>
                        gp_alt (global_position nav) = altitude item))
         in (r, r))),
      reset_mission_item_reached = (\<lambda>b. False)\<rparr>"

definition example_setpoint :: position_setpoint where
  "example_setpoint = \<lparr>sp_valid = False, sp_lat = Fin 0, sp_lon = Fin 0\<rparr>"

definition example_navigator :: "unit navigator" where
  "example_navigator =
     \<lparr>condition_landed = False,
      global_position = \<lparr>gp_lat = Fin 0, gp_lon = Fin 0, gp_alt = Fin 80\<rparr>,
      home_position = \<lparr>home_lat = Fin 0, home_lon = Fin 0, home_alt = Fin 100, home_yaw = Fin 0\<rparr>,
      nav_loiter_radius = Fin 50,
      nav_acceptance_radius = Fin 10,
      pos_sp_triplet =
        \<lparr>tr_previous = example_setpoint, tr_current = example_setpoint, tr_next = example_setpoint\<rparr>,
      can_loiter_at_sp = False,
      pos_sp_triplet_updated = False\<rparr>"

definition example_item :: mission_item where
  "example_item =
     \<lparr>lat = Fin 0, lon = Fin 0, altitude_is_relative = True, altitude = Fin 0, yaw = Fin 0,
      loiter_radius = Fin 0, loiter_direction = 0, nav_cmd = NAV_CMD_other 0,
      acceptance_radius = Fin 0, time_inside = Fin 0, pitch_min = Fin 0, autocontinue = False,
      origin = ORIGIN_other 0\<rparr>"

definition example_store :: rtl_params where
  "example_store = \<lparr>RTL_RETURN_ALT = Fin 50, RTL_DESCEND_ALT = Fin 20, RTL_LAND_DELAY = Fin 5\<rparr>"

definition example_rtl :: "(unit, unit, unit, bool) rtl" where
  "example_rtl = RTL_ctor example_navigator example_item False example_store []"

text \<open>The surroundings that change nothing, and the ones that move the vehicle.\<close>

definition stay :: "(unit, unit) surroundings" where
  "stay = (\<lambda>nav. nav, \<lambda>store. store)"

definition move_to :: "real \<Rightarrow> real \<Rightarrow> real \<Rightarrow> (unit, unit) surroundings" where
  "move_to la lo al =
     (\<lambda>nav. nav\<lparr>global_position := \<lparr>gp_lat = Fin la, gp_lon = Fin lo, gp_alt = Fin al\<rparr>\<rparr>,
      \<lambda>store. store)"

definition touch_down :: "(unit, unit) surroundings" where
  "touch_down = (\<lambda>nav. nav\<lparr>condition_landed := True\<rparr>, \<lambda>store. store)"

text \<open>
  A configuration in which the rounding of the sum decides: the object constructed with the
  return altitude \<^verbatim>\<open>50.2f\<close> in the store, then home altitude \<^verbatim>\<open>100.3f\<close> and the vehicle at
  altitude 150.5. The exact sum of the two is above 150.5; the single-precision sum is 150.5.
\<close>

definition rounding_rtl :: "(unit, unit, unit, bool) rtl" where
  "rounding_rtl =
     surround
       (\<lambda>nav. nav
          \<lparr>global_position := \<lparr>gp_lat = Fin 0, gp_lon = Fin 0, gp_alt = Fin (301 / 2)\<rparr>,
           home_position := (home_position nav)\<lparr>home_alt := Fin (13146522 / 131072)\<rparr>\<rparr>,
        \<lambda>store. store)
       (RTL_ctor example_navigator example_item False
          (example_store\<lparr>RTL_RETURN_ALT := Fin (13159629 / 262144)\<rparr>) [])"

text \<open>The advisory of the \<^verbatim>\<open>RTL_STATE_RETURN\<close> branch of \<^verbatim>\<open>set_rtl_item\<close> (line 188).\<close>

definition return_advisory :: string where
  "return_advisory = ''RTL: return at %d m (%d m above home)''"

text \<open>
  Whether the log holds a return advisory at or after position \<open>n\<close>: with \<open>n\<close> the length of
  the log when an activation begins, whether a \<^verbatim>\<open>RTL_STATE_RETURN\<close> target has been computed
  since.
\<close>

definition return_computed_since :: "nat \<Rightarrow> ('m, 'p, 'n, 'b) rtl \<Rightarrow> bool" where
  "return_computed_since n s = (return_advisory \<in> set (map fst (drop n (mavlink_log s))))"

text \<open>The cycles of an activation after its first: one call of \<^verbatim>\<open>on_active\<close> each.\<close>

definition active_cycles ::
  "('p, 'n) surroundings list \<Rightarrow> (('p, 'n) surroundings \<times> hook) list" where
  "active_cycles es = map (\<lambda>e. (e, OnActive)) es"

section \<open>Facts about single precision\<close>

lemma is_single_of_int: "\<bar>m\<bar> < 2 ^ 24 \<Longrightarrow> is_single (of_int m)"
  unfolding is_single_def by (intro exI [of _ m] exI [of _ 149]) simp

lemma is_single_minus: "is_single x \<Longrightarrow> is_single (- x)"
proof -
  assume "is_single x"
  then obtain m :: int and k :: nat
    where "\<bar>m\<bar> < 2 ^ 24" and "k \<le> 253" and "x = of_int m * 2 ^ k / 2 ^ 149"
    unfolding is_single_def by blast
  then have "\<bar>- m\<bar> < 2 ^ 24 \<and> k \<le> 253 \<and> - x = of_int (- m) * 2 ^ k / 2 ^ 149"
    by simp
  then show "is_single (- x)"
    unfolding is_single_def by blast
qed

text \<open>
  No single-precision number lies above the constant \<^verbatim>\<open>0.01f\<close> and at or below one
  hundredth: with an exponent of at least \<^verbatim>\<open>-30\<close> the number is a multiple of \<^verbatim>\<open>2^(-30)\<close>,
  and none lies in that interval; with a smaller exponent the number is below \<^verbatim>\<open>2^(-7)\<close>.
\<close>

lemma single_gap:
  assumes "is_single x" and "5368709 / 536870912 < x"
  shows "1 / 100 < x"
proof (rule ccontr)
  assume "\<not> 1 / 100 < x"
  then have le: "x \<le> 1 / 100" by simp
  from assms(1) obtain m :: int and k :: nat
    where m: "\<bar>m\<bar> < 2 ^ 24" and k: "k \<le> 253" and x: "x = of_int m * 2 ^ k / 2 ^ 149"
    unfolding is_single_def by blast
  show False
  proof (cases "119 \<le> k")
    case True
    then obtain j where j: "k = 119 + j" using le_Suc_ex by blast
    define n :: int where "n = m * 2 ^ j"
    have "x = of_int n / 2 ^ 30"
      by (simp add: x j n_def power_add)
    with assms(2) le have "10737418 < n" and "100 * n \<le> 1073741824"
      by (simp_all add: field_simps)
    then show False by linarith
  next
    case False
    then have "k \<le> 118" by simp
    then have p: "(2::real) ^ k \<le> 2 ^ 118"
      by (intro power_increasing) simp_all
    have u: "real_of_int m < 2 ^ 24"
    proof -
      from m have "m < 16777216" by simp
      then have "real_of_int m < real_of_int 16777216" by (simp only: of_int_less_iff)
      then show ?thesis by simp
    qed
    have "0 < x" using assms(2) by linarith
    then have z: "0 \<le> real_of_int m"
      by (simp add: x zero_less_mult_iff zero_less_divide_iff)
    have "real_of_int m * 2 ^ k < 2 ^ 24 * 2 ^ 118"
      using u p z by (rule mult_less_le_imp_less) simp
    then have "x < 2 ^ 24 * 2 ^ 118 / 2 ^ 149"
      by (simp add: x divide_strict_right_mono)
    with assms(2) show False by simp
  qed
qed

lemma single_band:
  assumes "is_single d"
  shows "(d < - (5368709 / 536870912) \<or> 5368709 / 536870912 < d)
      \<longleftrightarrow> (d < - (1 / 100) \<or> 1 / 100 < d)"
proof -
  have "1 / 100 < d" if "5368709 / 536870912 < d"
    using assms that by (rule single_gap)
  moreover have "d < - (1 / 100)" if "d < - (5368709 / 536870912)"
  proof -
    from that have "5368709 / 536870912 < - d" by simp
    with is_single_minus [OF assms] have "1 / 100 < - d" by (rule single_gap)
    then show ?thesis by simp
  qed
  ultimately show ?thesis by auto
qed

section \<open>Facts about the parts of \<^verbatim>\<open>set_rtl_item\<close>\<close>

lemma head_members:
  "rtl_state (set_rtl_item_head X s) = rtl_state s"
  "rtl_start_lock (set_rtl_item_head X s) = rtl_start_lock s"
  "mission_item (set_rtl_item_head X s) = mission_item s"
  "mission_block (set_rtl_item_head X s) = mission_block s"
  "mavlink_log (set_rtl_item_head X s) = mavlink_log s"
  "param_store (set_rtl_item_head X s) = param_store s"
  "param_land_delay (set_rtl_item_head X s) = RTL_LAND_DELAY (param_store s)"
  by (simp_all add: set_rtl_item_head_def updateParams_def set_can_loiter_at_sp_def Let_def)

lemma head_navigator:
  "navigator (set_rtl_item_head X s) =
     (navigator s)
       \<lparr>pos_sp_triplet :=
          (if rtl_start_lock s then pos_sp_triplet (navigator s)
           else set_previous_pos_setpoint X (pos_sp_triplet (navigator s))),
        can_loiter_at_sp := False\<rparr>"
  by (simp add: set_rtl_item_head_def updateParams_def set_can_loiter_at_sp_def Let_def)

lemma switch_members:
  "rtl_state (set_rtl_item_switch X s) = rtl_state s"
  "rtl_start_lock (set_rtl_item_switch X s) = (rtl_start_lock s \<or> rtl_state s = RTL_STATE_RETURN)"
  "mission_block (set_rtl_item_switch X s) = mission_block s"
  "param_store (set_rtl_item_switch X s) = param_store s"
  by (simp_all add: set_rtl_item_switch_def mavlink_log_critical_def set_can_loiter_at_sp_def
      Let_def split: RTLState.splits)

lemma switch_navigator:
  "navigator (set_rtl_item_switch X s) =
     (if rtl_state s = RTL_STATE_LOITER then (navigator s)\<lparr>can_loiter_at_sp := True\<rparr>
      else navigator s)"
  by (simp add: set_rtl_item_switch_def mavlink_log_critical_def set_can_loiter_at_sp_def
      Let_def split: RTLState.splits)

lemma tail_members:
  "rtl_state (set_rtl_item_tail X s) = rtl_state s"
  "rtl_start_lock (set_rtl_item_tail X s) = rtl_start_lock s"
  "mission_item (set_rtl_item_tail X s) = mission_item s"
  "mission_block (set_rtl_item_tail X s) = reset_mission_item_reached X (mission_block s)"
  "mavlink_log (set_rtl_item_tail X s) = mavlink_log s"
  "param_store (set_rtl_item_tail X s) = param_store s"
  by (simp_all add: set_rtl_item_tail_def set_position_setpoint_triplet_updated_def Let_def)

lemma tail_navigator:
  "navigator (set_rtl_item_tail X s) =
     (navigator s)
       \<lparr>pos_sp_triplet := (pos_sp_triplet (navigator s))
          \<lparr>tr_current := mission_item_to_position_setpoint X (navigator s) (mission_item s)
                           (tr_current (pos_sp_triplet (navigator s))),
           tr_next := (tr_next (pos_sp_triplet (navigator s)))\<lparr>sp_valid := False\<rparr>\<rparr>,
        pos_sp_triplet_updated := True\<rparr>"
  by (simp add: set_rtl_item_tail_def set_position_setpoint_triplet_updated_def Let_def)

lemma set_rtl_item_state: "rtl_state (set_rtl_item X s) = rtl_state s"
  by (simp add: set_rtl_item_def head_members switch_members tail_members)

lemma set_rtl_item_lock:
  "rtl_start_lock (set_rtl_item X s) = (rtl_start_lock s \<or> rtl_state s = RTL_STATE_RETURN)"
  by (simp add: set_rtl_item_def head_members switch_members tail_members)

lemma switch_log:
  "\<exists>msgs. mavlink_log (set_rtl_item_switch X s) = mavlink_log s @ msgs \<and>
      (return_advisory \<in> set (map fst msgs) \<longleftrightarrow> rtl_state s = RTL_STATE_RETURN)"
  by (cases "rtl_state s")
    (simp_all add: set_rtl_item_switch_def mavlink_log_critical_def set_can_loiter_at_sp_def
      return_advisory_def Let_def)

lemma set_rtl_item_log:
  "\<exists>msgs. mavlink_log (set_rtl_item X s) = mavlink_log s @ msgs \<and>
      (return_advisory \<in> set (map fst msgs) \<longleftrightarrow> rtl_state s = RTL_STATE_RETURN)"
  using switch_log [of X "set_rtl_item_head X s"]
  by (simp add: set_rtl_item_def head_members tail_members)

lemma decide_members:
  "rtl_start_lock (on_activation_decide s) =
     (rtl_start_lock s \<and> (rtl_state s \<noteq> RTL_STATE_NONE \<or> condition_landed (navigator s)))"
  "navigator (on_activation_decide s) = navigator s"
  "mission_block (on_activation_decide s) = mission_block s"
  "param_store (on_activation_decide s) = param_store s"
  by (simp_all add: on_activation_decide_def mavlink_log_critical_def Let_def)

lemma advance_members:
  "rtl_start_lock (advance_rtl s) = rtl_start_lock s"
  "mavlink_log (advance_rtl s) = mavlink_log s"
  "navigator (advance_rtl s) = navigator s"
  "mission_item (advance_rtl s) = mission_item s"
  "mission_block (advance_rtl s) = mission_block s"
  by (simp_all add: advance_rtl_def split: RTLState.splits)

lemma advance_table:
  "rtl_state (advance_rtl s) =
     (case rtl_state s of
        RTL_STATE_NONE \<Rightarrow> RTL_STATE_NONE
      | RTL_STATE_CLIMB \<Rightarrow> RTL_STATE_RETURN
      | RTL_STATE_RETURN \<Rightarrow> RTL_STATE_DESCEND
      | RTL_STATE_DESCEND \<Rightarrow>
          (if flt (param_land_delay s) (fneg DELAY_SIGMA) \<or> fgt (param_land_delay s) DELAY_SIGMA
           then RTL_STATE_LOITER else RTL_STATE_LAND)
      | RTL_STATE_LOITER \<Rightarrow> RTL_STATE_LAND
      | RTL_STATE_LAND \<Rightarrow> RTL_STATE_LANDED
      | RTL_STATE_LANDED \<Rightarrow> RTL_STATE_LANDED)"
  by (simp add: advance_rtl_def split: RTLState.splits)

lemma advance_rank: "phase_rank (rtl_state s) \<le> phase_rank (rtl_state (advance_rtl s))"
  by (simp add: advance_table split: RTLState.splits)

lemma decide_rank: "phase_rank (rtl_state s) \<le> phase_rank (rtl_state (on_activation_decide s))"
  by (simp add: on_activation_decide_def mavlink_log_critical_def Let_def)

lemma on_activation_rank:
  "phase_rank (rtl_state s) \<le> phase_rank (rtl_state (on_activation X s))"
  by (simp add: on_activation_def set_rtl_item_state decide_rank)

lemma on_active_unfold:
  "on_active X s =
     (let r = is_mission_item_reached X (navigator s) (mission_item s) (mission_block s)
      in if rtl_state s = RTL_STATE_LANDED then s
         else if fst r then set_rtl_item X (advance_rtl (s\<lparr>mission_block := snd r\<rparr>))
         else s\<lparr>mission_block := snd r\<rparr>)"
  by (simp add: on_active_def Let_def split: prod.splits)

lemma on_active_rank: "phase_rank (rtl_state s) \<le> phase_rank (rtl_state (on_active X s))"
proof -
  let ?r = "is_mission_item_reached X (navigator s) (mission_item s) (mission_block s)"
  have "phase_rank (rtl_state s) \<le> phase_rank (rtl_state (advance_rtl (s\<lparr>mission_block := snd ?r\<rparr>)))"
    using advance_rank [of "s\<lparr>mission_block := snd ?r\<rparr>"] by simp
  then show ?thesis
    by (simp add: on_active_unfold set_rtl_item_state Let_def)
qed

lemma surround_members:
  "rtl_state (surround e s) = rtl_state s"
  "rtl_start_lock (surround e s) = rtl_start_lock s"
  "mavlink_log (surround e s) = mavlink_log s"
  by (simp_all add: surround_def)

lemma cycle_rank:
  "snd c \<noteq> OnInactive \<Longrightarrow> phase_rank (rtl_state s) \<le> phase_rank (rtl_state (cycle X c s))"
proof (cases "snd c")
  case OnInactive
  assume "snd c \<noteq> OnInactive"
  with OnInactive show ?thesis by simp
next
  case OnActivation
  then show ?thesis
    using on_activation_rank [of "surround (fst c) s" X] by (simp add: cycle_def surround_members)
next
  case OnActive
  then show ?thesis
    using on_active_rank [of "surround (fst c) s" X] by (simp add: cycle_def surround_members)
qed

lemma run_rank:
  "\<forall>c \<in> set cs. snd c \<noteq> OnInactive \<Longrightarrow>
     phase_rank (rtl_state s) \<le> phase_rank (rtl_state (run X cs s))"
proof (induction cs arbitrary: s)
  case Nil
  show ?case by simp
next
  case (Cons c cs)
  have "phase_rank (rtl_state s) \<le> phase_rank (rtl_state (cycle X c s))"
    using Cons.prems by (simp add: cycle_rank)
  also have "\<dots> \<le> phase_rank (rtl_state (run X cs (cycle X c s)))"
    using Cons.prems by (intro Cons.IH) simp
  finally show ?case by simp
qed

lemma param_land_delay_set_rtl_item:
  "param_land_delay (set_rtl_item X s) = RTL_LAND_DELAY (param_store s)"
  by (simp add: set_rtl_item_def set_rtl_item_head_def set_rtl_item_switch_def set_rtl_item_tail_def
      updateParams_def mavlink_log_critical_def set_can_loiter_at_sp_def
      set_position_setpoint_triplet_updated_def Let_def split: RTLState.splits)

lemma mission_item_set_rtl_item:
  "mission_item (set_rtl_item X s) = mission_item (set_rtl_item_switch X (set_rtl_item_head X s))"
  by (simp add: set_rtl_item_def tail_members)

lemma switch_return_item:
  "rtl_state s = RTL_STATE_RETURN \<Longrightarrow>
     mission_item (set_rtl_item_switch X s) =
       (mission_item s)
         \<lparr>lat := home_lat (home_position (navigator s)),
          lon := home_lon (home_position (navigator s)),
          yaw :=
            (if sp_valid (tr_previous (pos_sp_triplet (navigator s)))
             then get_bearing_to_next_waypoint X
                    (sp_lat (tr_previous (pos_sp_triplet (navigator s))))
                    (sp_lon (tr_previous (pos_sp_triplet (navigator s))))
                    (home_lat (home_position (navigator s)))
                    (home_lon (home_position (navigator s)))
             else get_bearing_to_next_waypoint X
                    (gp_lat (global_position (navigator s)))
                    (gp_lon (global_position (navigator s)))
                    (home_lat (home_position (navigator s)))
                    (home_lon (home_position (navigator s)))),
          loiter_radius := nav_loiter_radius (navigator s),
          loiter_direction := 1,
          nav_cmd := NAV_CMD_WAYPOINT,
          acceptance_radius := nav_acceptance_radius (navigator s),
          time_inside := Fin 0,
          pitch_min := Fin 0,
          autocontinue := True,
          origin := ORIGIN_ONBOARD\<rparr>"
  by (simp add: set_rtl_item_switch_def mavlink_log_critical_def Let_def)

lemma switch_loiter_item:
  "rtl_state s = RTL_STATE_LOITER \<Longrightarrow>
     mission_item (set_rtl_item_switch X s) =
       (mission_item s)
         \<lparr>lat := home_lat (home_position (navigator s)),
          lon := home_lon (home_position (navigator s)),
          altitude_is_relative := False,
          altitude := fadd (home_alt (home_position (navigator s))) (param_descend_alt s),
          yaw := home_yaw (home_position (navigator s)),
          loiter_radius := nav_loiter_radius (navigator s),
          loiter_direction := 1,
          nav_cmd := (if fgt (param_land_delay s) (fneg DELAY_SIGMA)
                      then NAV_CMD_LOITER_TIME_LIMIT else NAV_CMD_LOITER_UNLIMITED),
          acceptance_radius := nav_acceptance_radius (navigator s),
          time_inside := (if flt (param_land_delay s) (Fin 0) then Fin 0 else param_land_delay s),
          pitch_min := Fin 0,
          autocontinue := fgt (param_land_delay s) (fneg DELAY_SIGMA),
          origin := ORIGIN_ONBOARD\<rparr>"
  by (simp add: set_rtl_item_switch_def mavlink_log_critical_def set_can_loiter_at_sp_def Let_def)

lemma decide_state:
  "rtl_state (on_activation_decide s) =
     (if rtl_state s \<noteq> RTL_STATE_NONE then rtl_state s
      else if condition_landed (navigator s) then RTL_STATE_LANDED
      else if flt (gp_alt (global_position (navigator s)))
                  (fadd (home_alt (home_position (navigator s))) (param_return_alt s))
      then RTL_STATE_CLIMB else RTL_STATE_RETURN)"
  by (simp add: on_activation_decide_def mavlink_log_critical_def Let_def)

lemma decide_log:
  "mavlink_log (on_activation_decide s) =
     (if rtl_state s = RTL_STATE_NONE \<and> condition_landed (navigator s)
      then mavlink_log s @ [(''no RTL when landed'', [])] else mavlink_log s)"
  by (simp add: on_activation_decide_def mavlink_log_critical_def Let_def)

section \<open>The start lock along an activation\<close>

text \<open>
  The invariant: the lock is set exactly if the log holds a return advisory from position
  \<open>n\<close> on, and the log has at least \<open>n\<close> entries.
\<close>

lemma lock_inv_set_rtl_item:
  assumes "rtl_start_lock t = return_computed_since n t" and "n \<le> length (mavlink_log t)"
  shows "rtl_start_lock (set_rtl_item X t) = return_computed_since n (set_rtl_item X t)"
    and "n \<le> length (mavlink_log (set_rtl_item X t))"
proof -
  obtain msgs where m: "mavlink_log (set_rtl_item X t) = mavlink_log t @ msgs"
    and r: "return_advisory \<in> set (map fst msgs) \<longleftrightarrow> rtl_state t = RTL_STATE_RETURN"
    using set_rtl_item_log [of X t] by blast
  from m assms(2) show "n \<le> length (mavlink_log (set_rtl_item X t))" by simp
  from m assms(2) have "return_computed_since n (set_rtl_item X t) =
      (return_computed_since n t \<or> return_advisory \<in> set (map fst msgs))"
    by (auto simp: return_computed_since_def)
  with r assms(1) show "rtl_start_lock (set_rtl_item X t) = return_computed_since n (set_rtl_item X t)"
    by (simp add: set_rtl_item_lock)
qed

lemma lock_inv_on_active:
  assumes "rtl_start_lock t = return_computed_since n t" and "n \<le> length (mavlink_log t)"
  shows "rtl_start_lock (on_active X t) = return_computed_since n (on_active X t)"
    and "n \<le> length (mavlink_log (on_active X t))"
proof -
  let ?r = "is_mission_item_reached X (navigator t) (mission_item t) (mission_block t)"
  let ?u = "advance_rtl (t\<lparr>mission_block := snd ?r\<rparr>)"
  have u: "rtl_start_lock ?u = return_computed_since n ?u" "n \<le> length (mavlink_log ?u)"
    using assms by (simp_all add: advance_members return_computed_since_def)
  have k: "rtl_start_lock (t\<lparr>mission_block := snd ?r\<rparr>)
      = return_computed_since n (t\<lparr>mission_block := snd ?r\<rparr>)"
    using assms by (simp add: return_computed_since_def)
  show "rtl_start_lock (on_active X t) = return_computed_since n (on_active X t)"
    using lock_inv_set_rtl_item(1) [OF u, of X] k assms(1)
    by (simp add: on_active_unfold Let_def)
  show "n \<le> length (mavlink_log (on_active X t))"
    using lock_inv_set_rtl_item(2) [OF u, of X] assms(2)
    by (simp add: on_active_unfold Let_def)
qed

lemma lock_inv_active_cycles:
  assumes "rtl_start_lock t = return_computed_since n t" and "n \<le> length (mavlink_log t)"
  shows "rtl_start_lock (run X (active_cycles es) t)
      = return_computed_since n (run X (active_cycles es) t)"
  using assms
proof (induction es arbitrary: t)
  case Nil
  then show ?case by (simp add: active_cycles_def)
next
  case (Cons e es)
  let ?t = "surround e t"
  have s: "rtl_start_lock ?t = return_computed_since n ?t" "n \<le> length (mavlink_log ?t)"
    using Cons.prems by (simp_all add: surround_members return_computed_since_def)
  have "rtl_start_lock (run X (active_cycles es) (on_active X ?t))
      = return_computed_since n (run X (active_cycles es) (on_active X ?t))"
    using lock_inv_on_active [OF s, of X] by (intro Cons.IH)
  then show ?case by (simp add: active_cycles_def cycle_def)
qed

lemma lock_inv_on_activation:
  assumes "rtl_state s = RTL_STATE_NONE" and "\<not> condition_landed (navigator s)"
  shows "rtl_start_lock (on_activation X s)
      = return_computed_since (length (mavlink_log s)) (on_activation X s)"
    and "length (mavlink_log s) \<le> length (mavlink_log (on_activation X s))"
proof -
  let ?d = "on_activation_decide s"
  have d: "rtl_start_lock ?d = return_computed_since (length (mavlink_log s)) ?d"
    "length (mavlink_log s) \<le> length (mavlink_log ?d)"
    using assms by (simp_all add: decide_members decide_log return_computed_since_def)
  show "rtl_start_lock (on_activation X s)
      = return_computed_since (length (mavlink_log s)) (on_activation X s)"
    using lock_inv_set_rtl_item(1) [OF d, of X] by (simp add: on_activation_def)
  show "length (mavlink_log s) \<le> length (mavlink_log (on_activation X s))"
    using lock_inv_set_rtl_item(2) [OF d, of X] by (simp add: on_activation_def)
qed

text \<open>
  A second invariant of such an activation: the phase is not \<^verbatim>\<open>RTL_STATE_NONE\<close>, and the lock
  is clear exactly in phase \<^verbatim>\<open>RTL_STATE_CLIMB\<close>.
\<close>

lemma climb_inv_on_activation:
  assumes "rtl_state s = RTL_STATE_NONE" and "\<not> condition_landed (navigator s)"
  shows "rtl_state (on_activation X s) \<noteq> RTL_STATE_NONE"
    and "rtl_start_lock (on_activation X s) = (rtl_state (on_activation X s) \<noteq> RTL_STATE_CLIMB)"
  using assms
  by (simp_all add: on_activation_def set_rtl_item_state set_rtl_item_lock decide_state
      decide_members)

lemma climb_inv_on_active:
  assumes "rtl_state t \<noteq> RTL_STATE_NONE"
    and "rtl_start_lock t = (rtl_state t \<noteq> RTL_STATE_CLIMB)"
  shows "rtl_state (on_active X t) \<noteq> RTL_STATE_NONE"
    and "rtl_start_lock (on_active X t) = (rtl_state (on_active X t) \<noteq> RTL_STATE_CLIMB)"
proof -
  let ?r = "is_mission_item_reached X (navigator t) (mission_item t) (mission_block t)"
  let ?u = "advance_rtl (t\<lparr>mission_block := snd ?r\<rparr>)"
  have u: "rtl_state ?u \<noteq> RTL_STATE_NONE" "rtl_state ?u \<noteq> RTL_STATE_CLIMB"
    "rtl_start_lock ?u \<or> rtl_state ?u = RTL_STATE_RETURN"
    using assms by (cases "rtl_state t"; simp add: advance_table advance_members)+
  show "rtl_state (on_active X t) \<noteq> RTL_STATE_NONE"
    using assms(1) u(1) by (simp add: on_active_unfold Let_def set_rtl_item_state)
  show "rtl_start_lock (on_active X t) = (rtl_state (on_active X t) \<noteq> RTL_STATE_CLIMB)"
    using assms(2) u(2,3) by (simp add: on_active_unfold Let_def set_rtl_item_state set_rtl_item_lock)
qed

lemma climb_inv_active_cycles:
  assumes "rtl_state t \<noteq> RTL_STATE_NONE"
    and "rtl_start_lock t = (rtl_state t \<noteq> RTL_STATE_CLIMB)"
  shows "rtl_start_lock (run X (active_cycles es) t)
      = (rtl_state (run X (active_cycles es) t) \<noteq> RTL_STATE_CLIMB)"
  using assms
proof (induction es arbitrary: t)
  case Nil
  then show ?case by (simp add: active_cycles_def)
next
  case (Cons e es)
  let ?t = "surround e t"
  have s: "rtl_state ?t \<noteq> RTL_STATE_NONE" "rtl_start_lock ?t = (rtl_state ?t \<noteq> RTL_STATE_CLIMB)"
    using Cons.prems by (simp_all add: surround_members)
  have "rtl_start_lock (run X (active_cycles es) (on_active X ?t))
      = (rtl_state (run X (active_cycles es) (on_active X ?t)) \<noteq> RTL_STATE_CLIMB)"
    using climb_inv_on_active [OF s, of X] by (intro Cons.IH)
  then show ?case by (simp add: active_cycles_def cycle_def)
qed

section \<open>Evaluating the model on the sample configuration\<close>

lemmas example_defs = example_helpers_def example_setpoint_def example_navigator_def example_item_def
  example_store_def example_rtl_def stay_def move_to_def touch_down_def RTL_ctor_def
  fsub_def

text \<open>The sums and differences that occur in the sample configurations, rounded.\<close>

lemma example_sums:
  "round_single 0 = Fin 0"
  "round_single 20 = Fin 20"
  "round_single 50 = Fin 50"
  "round_single 100 = Fin 100"
  "round_single (- 100) = Fin (- 100)"
  "round_single 120 = Fin 120"
  "round_single 150 = Fin 150"
  "round_single (39452673 / 262144) = Fin (301 / 2)"
  by (simp_all add: round_single_def round_half_even_def)

lemmas step_defs = set_rtl_item_def set_rtl_item_head_def set_rtl_item_switch_def set_rtl_item_tail_def
  updateParams_def mavlink_log_critical_def set_can_loiter_at_sp_def
  set_position_setpoint_triplet_updated_def on_activation_def on_activation_decide_def
  on_active_def on_inactive_def advance_rtl_def surround_def cycle_def DELAY_SIGMA_def fgt_def

section \<open>The claims\<close>

text \<open>
  Claim C1. Activation with the held phase \<^verbatim>\<open>RTL_STATE_NONE\<close> ends in \<^verbatim>\<open>RTL_STATE_LANDED\<close> if
  the vehicle is landed, whatever the altitude; otherwise in \<^verbatim>\<open>RTL_STATE_CLIMB\<close> if the current
  altitude is below home altitude plus return altitude, the sum being the single-precision sum
  the source computes (for numbers \<open>a\<close>, \<open>h\<close>, \<open>r\<close> with \<open>h + r\<close> rounding to the number \<open>c\<close>:
  if \<open>a < c\<close>); otherwise in \<^verbatim>\<open>RTL_STATE_RETURN\<close>, and then the entry decision sets the
  mission item's altitude to the current altitude, marked absolute, and the target computation
  that follows keeps both. With any other held phase the entry decision changes nothing and
  the phase after activation is the held one. The return altitude compared is the cached one.
\<close>

theorem on_activation_entry:
  "(rtl_state s = RTL_STATE_NONE \<longrightarrow>
      rtl_state (on_activation X s) =
        (if condition_landed (navigator s) then RTL_STATE_LANDED
         else if flt (gp_alt (global_position (navigator s)))
                     (fadd (home_alt (home_position (navigator s))) (param_return_alt s))
         then RTL_STATE_CLIMB else RTL_STATE_RETURN)) \<and>
   (rtl_state s = RTL_STATE_NONE \<and> \<not> condition_landed (navigator s) \<and>
    gp_alt (global_position (navigator s)) = Fin a \<and>
    home_alt (home_position (navigator s)) = Fin h \<and> param_return_alt s = Fin r \<and>
    round_single (h + r) = Fin c \<longrightarrow>
      rtl_state (on_activation X s) = (if a < c then RTL_STATE_CLIMB else RTL_STATE_RETURN)) \<and>
   (rtl_state s = RTL_STATE_NONE \<and> rtl_state (on_activation X s) = RTL_STATE_RETURN \<longrightarrow>
      altitude (mission_item (on_activation_decide s)) = gp_alt (global_position (navigator s)) \<and>
      \<not> altitude_is_relative (mission_item (on_activation_decide s)) \<and>
      altitude (mission_item (on_activation X s)) = gp_alt (global_position (navigator s)) \<and>
      \<not> altitude_is_relative (mission_item (on_activation X s))) \<and>
   (rtl_state s \<noteq> RTL_STATE_NONE \<longrightarrow>
      on_activation_decide s = s \<and> rtl_state (on_activation X s) = rtl_state s)"
proof (intro conjI impI)
  assume "rtl_state s = RTL_STATE_NONE"
  then show "rtl_state (on_activation X s) =
        (if condition_landed (navigator s) then RTL_STATE_LANDED
         else if flt (gp_alt (global_position (navigator s)))
                     (fadd (home_alt (home_position (navigator s))) (param_return_alt s))
         then RTL_STATE_CLIMB else RTL_STATE_RETURN)"
    by (simp add: on_activation_def set_rtl_item_state decide_state)
next
  assume "rtl_state s = RTL_STATE_NONE \<and> \<not> condition_landed (navigator s) \<and>
    gp_alt (global_position (navigator s)) = Fin a \<and>
    home_alt (home_position (navigator s)) = Fin h \<and> param_return_alt s = Fin r \<and>
    round_single (h + r) = Fin c"
  then show "rtl_state (on_activation X s) = (if a < c then RTL_STATE_CLIMB else RTL_STATE_RETURN)"
    by (simp add: on_activation_def set_rtl_item_state decide_state)
next
  assume a: "rtl_state s = RTL_STATE_NONE \<and> rtl_state (on_activation X s) = RTL_STATE_RETURN"
  then have d: "rtl_state (on_activation_decide s) = RTL_STATE_RETURN"
    by (simp add: on_activation_def set_rtl_item_state)
  with a have b: "\<not> condition_landed (navigator s)"
    "\<not> flt (gp_alt (global_position (navigator s)))
                     (fadd (home_alt (home_position (navigator s))) (param_return_alt s))"
    by (auto simp: decide_state split: if_splits)
  from a b show "altitude (mission_item (on_activation_decide s)) = gp_alt (global_position (navigator s))"
    and "\<not> altitude_is_relative (mission_item (on_activation_decide s))"
    by (simp_all add: on_activation_decide_def Let_def)
  then show "altitude (mission_item (on_activation X s)) = gp_alt (global_position (navigator s))"
    and "\<not> altitude_is_relative (mission_item (on_activation X s))"
    using d by (simp_all add: on_activation_def mission_item_set_rtl_item switch_return_item head_members)
next
  assume "rtl_state s \<noteq> RTL_STATE_NONE"
  then show "on_activation_decide s = s" and "rtl_state (on_activation X s) = rtl_state s"
    by (simp_all add: on_activation_def set_rtl_item_state on_activation_decide_def)
qed

theorem on_activation_entry_witness:
  "rtl_state example_rtl = RTL_STATE_NONE \<and>
   \<not> condition_landed (navigator example_rtl) \<and>
   gp_alt (global_position (navigator example_rtl)) = Fin 80 \<and>
   home_alt (home_position (navigator example_rtl)) = Fin 100 \<and>
   param_return_alt example_rtl = Fin 50 \<and>
   round_single (100 + 50) = Fin 150 \<and>
   rtl_state (on_activation example_helpers example_rtl) = RTL_STATE_CLIMB \<and>
   rtl_state (on_activation example_helpers (surround (move_to 0 0 200) example_rtl))
     = RTL_STATE_RETURN \<and>
   altitude (mission_item (on_activation example_helpers (surround (move_to 0 0 200) example_rtl)))
     = Fin 200 \<and>
   rtl_state (on_activation example_helpers (surround touch_down example_rtl)) = RTL_STATE_LANDED \<and>
   rtl_state (on_activation example_helpers (example_rtl\<lparr>rtl_state := RTL_STATE_DESCEND\<rparr>))
     = RTL_STATE_DESCEND \<and>
   round_single (13146522 / 131072 + 13159629 / 262144) = Fin (301 / 2) \<and>
   gp_alt (global_position (navigator rounding_rtl)) = Fin (301 / 2) \<and>
   home_alt (home_position (navigator rounding_rtl)) = Fin (13146522 / 131072) \<and>
   param_return_alt rounding_rtl = Fin (13159629 / 262144) \<and>
   rtl_state (on_activation example_helpers rounding_rtl) = RTL_STATE_RETURN"
  using on_activation_entry [of example_rtl example_helpers 80 100 50 150]
    on_activation_entry [of "surround (move_to 0 0 200) example_rtl" example_helpers 200 100 50 150]
    on_activation_entry [of "surround touch_down example_rtl" example_helpers 80 100 50 150]
    on_activation_entry [of "example_rtl\<lparr>rtl_state := RTL_STATE_DESCEND\<rparr>" example_helpers
      80 100 50 150]
    on_activation_entry [of rounding_rtl example_helpers
      "301 / 2" "13146522 / 131072" "13159629 / 262144" "301 / 2"]
  by (simp add: example_sums example_defs rounding_rtl_def surround_def on_inactive_def updateParams_def)

text \<open>
  Claim C2. \<^verbatim>\<open>advance_rtl\<close> maps each phase to its successor in the order and leaves
  \<^verbatim>\<open>RTL_STATE_NONE\<close> and \<^verbatim>\<open>RTL_STATE_LANDED\<close> alone; it, the target computation, activation,
  the active cycle and the surroundings never lower the position of the phase in the order;
  \<^verbatim>\<open>on_inactive\<close> keeps the phase or resets it to \<^verbatim>\<open>RTL_STATE_NONE\<close>; hence over any run
  of cycles without \<^verbatim>\<open>on_inactive\<close>, from any state, the phase never moves backward.
\<close>

theorem phase_only_moves_forward:
  "rtl_state (advance_rtl s) =
     (case rtl_state s of
        RTL_STATE_NONE \<Rightarrow> RTL_STATE_NONE
      | RTL_STATE_CLIMB \<Rightarrow> RTL_STATE_RETURN
      | RTL_STATE_RETURN \<Rightarrow> RTL_STATE_DESCEND
      | RTL_STATE_DESCEND \<Rightarrow>
          (if flt (param_land_delay s) (fneg DELAY_SIGMA) \<or> fgt (param_land_delay s) DELAY_SIGMA
           then RTL_STATE_LOITER else RTL_STATE_LAND)
      | RTL_STATE_LOITER \<Rightarrow> RTL_STATE_LAND
      | RTL_STATE_LAND \<Rightarrow> RTL_STATE_LANDED
      | RTL_STATE_LANDED \<Rightarrow> RTL_STATE_LANDED) \<and>
   phase_rank (rtl_state s) \<le> phase_rank (rtl_state (advance_rtl s)) \<and>
   rtl_state (set_rtl_item X s) = rtl_state s \<and>
   phase_rank (rtl_state s) \<le> phase_rank (rtl_state (on_activation X s)) \<and>
   phase_rank (rtl_state s) \<le> phase_rank (rtl_state (on_active X s)) \<and>
   rtl_state (on_inactive s) = (if can_loiter_at_sp (navigator s) then rtl_state s else RTL_STATE_NONE) \<and>
   rtl_state (surround e s) = rtl_state s \<and>
   ((\<forall>c \<in> set cs. snd c \<noteq> OnInactive) \<longrightarrow>
      phase_rank (rtl_state s) \<le> phase_rank (rtl_state (run X cs s)))"
proof (intro conjI impI)
  show "phase_rank (rtl_state s) \<le> phase_rank (rtl_state (advance_rtl s))"
    by (rule advance_rank)
  show "rtl_state (on_inactive s) =
      (if can_loiter_at_sp (navigator s) then rtl_state s else RTL_STATE_NONE)"
    by (simp add: on_inactive_def)
  assume "\<forall>c \<in> set cs. snd c \<noteq> OnInactive"
  then show "phase_rank (rtl_state s) \<le> phase_rank (rtl_state (run X cs s))"
    by (rule run_rank)
qed (simp_all only: advance_table set_rtl_item_state on_activation_rank on_active_rank
    surround_members)

theorem phase_only_moves_forward_witness:
  "snd (stay, OnActivation) \<noteq> OnInactive \<and> snd (move_to 0 0 150, OnActive) \<noteq> OnInactive \<and>
   rtl_state example_rtl = RTL_STATE_NONE \<and>
   rtl_state (run example_helpers [(stay, OnActivation), (move_to 0 0 150, OnActive)] example_rtl)
     = RTL_STATE_RETURN \<and>
   phase_rank (rtl_state example_rtl)
     \<le> phase_rank (rtl_state
          (run example_helpers [(stay, OnActivation), (move_to 0 0 150, OnActive)] example_rtl))"
  using phase_only_moves_forward
    [of example_rtl example_helpers stay "[(stay, OnActivation), (move_to 0 0 150, OnActive)]"]
  by (simp add: example_sums example_defs step_defs Let_def)

text \<open>
  Claim C3. For every land delay, advancing from \<^verbatim>\<open>RTL_STATE_DESCEND\<close> gives
  \<^verbatim>\<open>RTL_STATE_LOITER\<close> exactly when the delay is below minus the tolerance or above the
  tolerance, and \<^verbatim>\<open>RTL_STATE_LAND\<close> otherwise, so whenever the delay lies in the closed band
  around zero. The tolerance is the constant \<^verbatim>\<open>0.01f\<close>; for every single-precision delay the
  two tests against it are the tests against one hundredth. An infinite delay gives
  \<^verbatim>\<open>RTL_STATE_LOITER\<close>; a delay that is not a number fails both comparisons and gives
  \<^verbatim>\<open>RTL_STATE_LAND\<close>. The delay is the cached one, which \<^verbatim>\<open>advance_rtl\<close> reads.
\<close>

theorem advance_rtl_from_descend:
  "rtl_state s = RTL_STATE_DESCEND \<Longrightarrow>
     DELAY_SIGMA = Fin (5368709 / 536870912) \<and>
     rtl_state (advance_rtl s) =
       (case param_land_delay s of
          Fin d \<Rightarrow>
            if d < - (5368709 / 536870912) \<or> 5368709 / 536870912 < d
            then RTL_STATE_LOITER else RTL_STATE_LAND
        | NaN \<Rightarrow> RTL_STATE_LAND
        | PInf \<Rightarrow> RTL_STATE_LOITER
        | MInf \<Rightarrow> RTL_STATE_LOITER) \<and>
     (param_land_delay s = Fin d \<and> is_single d \<longrightarrow>
        rtl_state (advance_rtl s) =
          (if d < - (1 / 100) \<or> 1 / 100 < d then RTL_STATE_LOITER else RTL_STATE_LAND))"
proof (intro conjI impI)
  assume a: "rtl_state s = RTL_STATE_DESCEND"
  show "DELAY_SIGMA = Fin (5368709 / 536870912)"
    by (simp add: DELAY_SIGMA_def)
  from a show "rtl_state (advance_rtl s) =
       (case param_land_delay s of
          Fin d \<Rightarrow>
            if d < - (5368709 / 536870912) \<or> 5368709 / 536870912 < d
            then RTL_STATE_LOITER else RTL_STATE_LAND
        | NaN \<Rightarrow> RTL_STATE_LAND
        | PInf \<Rightarrow> RTL_STATE_LOITER
        | MInf \<Rightarrow> RTL_STATE_LOITER)"
    by (simp add: advance_rtl_def DELAY_SIGMA_def fgt_def split: cfloat.splits)
  assume d: "param_land_delay s = Fin d \<and> is_single d"
  then have "is_single d" by simp
  then have b: "(d < - (5368709 / 536870912) \<or> 5368709 / 536870912 < d)
      \<longleftrightarrow> (d < - (1 / 100) \<or> 1 / 100 < d)"
    by (rule single_band)
  from a d have "rtl_state (advance_rtl s) =
      (if d < - (5368709 / 536870912) \<or> 5368709 / 536870912 < d
       then RTL_STATE_LOITER else RTL_STATE_LAND)"
    by (simp add: advance_rtl_def DELAY_SIGMA_def fgt_def)
  then show "rtl_state (advance_rtl s) =
      (if d < - (1 / 100) \<or> 1 / 100 < d then RTL_STATE_LOITER else RTL_STATE_LAND)"
    by (simp only: b)
qed

theorem advance_rtl_from_descend_witness:
  "rtl_state (example_rtl\<lparr>rtl_state := RTL_STATE_DESCEND\<rparr>) = RTL_STATE_DESCEND \<and>
   param_land_delay (example_rtl\<lparr>rtl_state := RTL_STATE_DESCEND\<rparr>) = Fin 5 \<and>
   is_single 5 \<and> is_single 0 \<and>
   rtl_state (advance_rtl (example_rtl\<lparr>rtl_state := RTL_STATE_DESCEND\<rparr>)) = RTL_STATE_LOITER \<and>
   rtl_state (advance_rtl (example_rtl\<lparr>rtl_state := RTL_STATE_DESCEND, param_land_delay := Fin 0\<rparr>))
     = RTL_STATE_LAND \<and>
   rtl_state (advance_rtl (example_rtl
     \<lparr>rtl_state := RTL_STATE_DESCEND, param_land_delay := Fin (5368709 / 536870912)\<rparr>))
     = RTL_STATE_LAND \<and>
   rtl_state (advance_rtl (example_rtl
     \<lparr>rtl_state := RTL_STATE_DESCEND, param_land_delay := Fin (- (5368709 / 536870912))\<rparr>))
     = RTL_STATE_LAND"
  using advance_rtl_from_descend [of "example_rtl\<lparr>rtl_state := RTL_STATE_DESCEND\<rparr>" 5,
        unfolded DELAY_SIGMA_def]
    advance_rtl_from_descend
      [of "example_rtl\<lparr>rtl_state := RTL_STATE_DESCEND, param_land_delay := Fin 0\<rparr>" 0,
        unfolded DELAY_SIGMA_def]
    advance_rtl_from_descend
      [of "example_rtl\<lparr>rtl_state := RTL_STATE_DESCEND,
             param_land_delay := Fin (5368709 / 536870912)\<rparr>" 0,
        unfolded DELAY_SIGMA_def]
    advance_rtl_from_descend
      [of "example_rtl\<lparr>rtl_state := RTL_STATE_DESCEND,
             param_land_delay := Fin (- (5368709 / 536870912))\<rparr>" 0,
        unfolded DELAY_SIGMA_def]
    is_single_of_int [of 5] is_single_of_int [of 0]
  by (simp add: example_rtl_def RTL_ctor_def example_store_def on_inactive_def updateParams_def
      example_navigator_def DELAY_SIGMA_def)

text \<open>
  Claim C4. The target computed in \<^verbatim>\<open>RTL_STATE_LOITER\<close> is determined by the land delay that
  the computation has just refreshed from the parameter store, and by the tolerance, the
  constant \<^verbatim>\<open>0.01f\<close>. For a number \<open>d\<close>: the command is the timed loiter if \<open>d\<close> is above minus
  the tolerance and the unlimited loiter otherwise, auto-continue is set exactly in the first
  case, and the time inside is the larger of \<open>0\<close> and \<open>d\<close>; so above the tolerance the item
  auto-continues, is timed and waits \<open>d\<close>, and below minus the tolerance it does not
  auto-continue, is unlimited and waits \<open>0\<close>. The infinite delays behave as numbers above and
  below every number. A delay that is not a number fails the comparisons: unlimited loiter,
  no auto-continue, and the time inside is that delay itself.
\<close>

theorem loiter_target:
  "rtl_state s = RTL_STATE_LOITER \<Longrightarrow>
     DELAY_SIGMA = Fin (5368709 / 536870912) \<and>
     param_land_delay (set_rtl_item X s) = RTL_LAND_DELAY (param_store s) \<and>
     nav_cmd (mission_item (set_rtl_item X s)) =
       (if fgt (RTL_LAND_DELAY (param_store s)) (fneg DELAY_SIGMA)
        then NAV_CMD_LOITER_TIME_LIMIT else NAV_CMD_LOITER_UNLIMITED) \<and>
     autocontinue (mission_item (set_rtl_item X s)) =
       fgt (RTL_LAND_DELAY (param_store s)) (fneg DELAY_SIGMA) \<and>
     (case RTL_LAND_DELAY (param_store s) of
        Fin d \<Rightarrow>
          nav_cmd (mission_item (set_rtl_item X s)) =
            (if - (5368709 / 536870912) < d
             then NAV_CMD_LOITER_TIME_LIMIT else NAV_CMD_LOITER_UNLIMITED) \<and>
          autocontinue (mission_item (set_rtl_item X s)) = (- (5368709 / 536870912) < d) \<and>
          time_inside (mission_item (set_rtl_item X s)) = Fin (max 0 d) \<and>
          (5368709 / 536870912 < d \<longrightarrow>
             autocontinue (mission_item (set_rtl_item X s)) \<and>
             nav_cmd (mission_item (set_rtl_item X s)) = NAV_CMD_LOITER_TIME_LIMIT \<and>
             time_inside (mission_item (set_rtl_item X s)) = Fin d) \<and>
          (d < - (5368709 / 536870912) \<longrightarrow>
             \<not> autocontinue (mission_item (set_rtl_item X s)) \<and>
             nav_cmd (mission_item (set_rtl_item X s)) = NAV_CMD_LOITER_UNLIMITED \<and>
             time_inside (mission_item (set_rtl_item X s)) = Fin 0)
      | PInf \<Rightarrow>
          nav_cmd (mission_item (set_rtl_item X s)) = NAV_CMD_LOITER_TIME_LIMIT \<and>
          autocontinue (mission_item (set_rtl_item X s)) \<and>
          time_inside (mission_item (set_rtl_item X s)) = PInf
      | MInf \<Rightarrow>
          nav_cmd (mission_item (set_rtl_item X s)) = NAV_CMD_LOITER_UNLIMITED \<and>
          \<not> autocontinue (mission_item (set_rtl_item X s)) \<and>
          time_inside (mission_item (set_rtl_item X s)) = Fin 0
      | NaN \<Rightarrow>
          nav_cmd (mission_item (set_rtl_item X s)) = NAV_CMD_LOITER_UNLIMITED \<and>
          \<not> autocontinue (mission_item (set_rtl_item X s)) \<and>
          time_inside (mission_item (set_rtl_item X s)) = NaN)"
  by (simp add: param_land_delay_set_rtl_item mission_item_set_rtl_item switch_loiter_item
      head_members DELAY_SIGMA_def fgt_def max_def split: cfloat.splits)

theorem loiter_target_witness:
  "rtl_state (example_rtl\<lparr>rtl_state := RTL_STATE_LOITER\<rparr>) = RTL_STATE_LOITER \<and>
   RTL_LAND_DELAY (param_store (example_rtl\<lparr>rtl_state := RTL_STATE_LOITER\<rparr>)) = Fin 5 \<and>
   autocontinue (mission_item (set_rtl_item example_helpers
     (example_rtl\<lparr>rtl_state := RTL_STATE_LOITER\<rparr>))) \<and>
   nav_cmd (mission_item (set_rtl_item example_helpers
     (example_rtl\<lparr>rtl_state := RTL_STATE_LOITER\<rparr>))) = NAV_CMD_LOITER_TIME_LIMIT \<and>
   time_inside (mission_item (set_rtl_item example_helpers
     (example_rtl\<lparr>rtl_state := RTL_STATE_LOITER\<rparr>))) = Fin 5 \<and>
   nav_cmd (mission_item (set_rtl_item example_helpers
     (example_rtl\<lparr>rtl_state := RTL_STATE_LOITER,
        param_store := example_store\<lparr>RTL_LAND_DELAY := Fin (- 1)\<rparr>\<rparr>))) = NAV_CMD_LOITER_UNLIMITED \<and>
   time_inside (mission_item (set_rtl_item example_helpers
     (example_rtl\<lparr>rtl_state := RTL_STATE_LOITER,
        param_store := example_store\<lparr>RTL_LAND_DELAY := Fin (- 1)\<rparr>\<rparr>))) = Fin 0 \<and>
   nav_cmd (mission_item (set_rtl_item example_helpers
     (example_rtl\<lparr>rtl_state := RTL_STATE_LOITER,
        param_store := example_store\<lparr>RTL_LAND_DELAY := Fin (- (5368709 / 536870912))\<rparr>\<rparr>)))
     = NAV_CMD_LOITER_UNLIMITED \<and>
   \<not> autocontinue (mission_item (set_rtl_item example_helpers
     (example_rtl\<lparr>rtl_state := RTL_STATE_LOITER,
        param_store := example_store\<lparr>RTL_LAND_DELAY := Fin (- (5368709 / 536870912))\<rparr>\<rparr>)))"
  using loiter_target [of "example_rtl\<lparr>rtl_state := RTL_STATE_LOITER\<rparr>" example_helpers,
        unfolded DELAY_SIGMA_def]
    loiter_target [of "example_rtl\<lparr>rtl_state := RTL_STATE_LOITER,
        param_store := example_store\<lparr>RTL_LAND_DELAY := Fin (- 1)\<rparr>\<rparr>" example_helpers,
        unfolded DELAY_SIGMA_def]
    loiter_target [of "example_rtl\<lparr>rtl_state := RTL_STATE_LOITER,
        param_store := example_store\<lparr>RTL_LAND_DELAY := Fin (- (5368709 / 536870912))\<rparr>\<rparr>"
      example_helpers,
        unfolded DELAY_SIGMA_def]
  by (simp add: example_sums example_defs on_inactive_def updateParams_def DELAY_SIGMA_def fgt_def)

text \<open>
  Claim C5, amended. In an activation entered from the held phase \<^verbatim>\<open>RTL_STATE_NONE\<close> with the
  vehicle not landed, the start lock is clear after the entry decision, and after the
  activation and any number of active cycles, whatever the surroundings do in between, it is
  set exactly if a \<^verbatim>\<open>RTL_STATE_RETURN\<close> target has been computed since the activation began,
  which is exactly if the phase is no longer \<^verbatim>\<open>RTL_STATE_CLIMB\<close>.
  The entry decision clears it only in its two airborne branches: when landed, or with a held
  phase, it stays as it was. The target computation sets it in phase \<^verbatim>\<open>RTL_STATE_RETURN\<close> and
  otherwise keeps it; \<^verbatim>\<open>advance_rtl\<close>, \<^verbatim>\<open>on_inactive\<close> and the surroundings keep it; an
  active cycle never clears it.
\<close>

theorem start_lock_within_activation:
  "(rtl_state s = RTL_STATE_NONE \<and> \<not> condition_landed (navigator s) \<longrightarrow>
      \<not> rtl_start_lock (on_activation_decide s) \<and>
      rtl_start_lock (run X (active_cycles es) (on_activation X s)) =
        return_computed_since (length (mavlink_log s))
          (run X (active_cycles es) (on_activation X s)) \<and>
      rtl_start_lock (run X (active_cycles es) (on_activation X s)) =
        (rtl_state (run X (active_cycles es) (on_activation X s)) \<noteq> RTL_STATE_CLIMB)) \<and>
   rtl_start_lock (on_activation_decide s) =
     (rtl_start_lock s \<and> (rtl_state s \<noteq> RTL_STATE_NONE \<or> condition_landed (navigator s))) \<and>
   rtl_start_lock (set_rtl_item X s) = (rtl_start_lock s \<or> rtl_state s = RTL_STATE_RETURN) \<and>
   rtl_start_lock (advance_rtl s) = rtl_start_lock s \<and>
   rtl_start_lock (on_inactive s) = rtl_start_lock s \<and>
   rtl_start_lock (surround e s) = rtl_start_lock s \<and>
   (rtl_start_lock s \<longrightarrow> rtl_start_lock (on_active X s))"
proof (intro conjI impI)
  assume a: "rtl_state s = RTL_STATE_NONE \<and> \<not> condition_landed (navigator s)"
  then show "\<not> rtl_start_lock (on_activation_decide s)"
    by (simp add: decide_members)
  from a have "rtl_start_lock (on_activation X s)
      = return_computed_since (length (mavlink_log s)) (on_activation X s)"
    and "length (mavlink_log s) \<le> length (mavlink_log (on_activation X s))"
    by (simp_all add: lock_inv_on_activation)
  then show "rtl_start_lock (run X (active_cycles es) (on_activation X s)) =
        return_computed_since (length (mavlink_log s))
          (run X (active_cycles es) (on_activation X s))"
    by (rule lock_inv_active_cycles)
  from a have "rtl_state (on_activation X s) \<noteq> RTL_STATE_NONE"
    and "rtl_start_lock (on_activation X s) = (rtl_state (on_activation X s) \<noteq> RTL_STATE_CLIMB)"
    by (simp_all add: climb_inv_on_activation)
  then show "rtl_start_lock (run X (active_cycles es) (on_activation X s)) =
        (rtl_state (run X (active_cycles es) (on_activation X s)) \<noteq> RTL_STATE_CLIMB)"
    by (rule climb_inv_active_cycles)
next
  assume "rtl_start_lock s"
  then show "rtl_start_lock (on_active X s)"
    by (simp add: on_active_unfold Let_def set_rtl_item_lock advance_members)
qed (simp_all add: decide_members set_rtl_item_lock advance_members surround_members on_inactive_def)

theorem start_lock_within_activation_witness:
  "rtl_state example_rtl = RTL_STATE_NONE \<and>
   \<not> condition_landed (navigator example_rtl) \<and>
   \<not> rtl_start_lock (on_activation_decide example_rtl) \<and>
   \<not> rtl_start_lock (run example_helpers (active_cycles [stay]) (on_activation example_helpers example_rtl)) \<and>
   rtl_state (run example_helpers (active_cycles [stay, move_to 0 0 150])
     (on_activation example_helpers example_rtl)) = RTL_STATE_RETURN \<and>
   rtl_start_lock (run example_helpers (active_cycles [stay, move_to 0 0 150])
     (on_activation example_helpers example_rtl)) \<and>
   return_computed_since (length (mavlink_log example_rtl))
     (run example_helpers (active_cycles [stay, move_to 0 0 150])
       (on_activation example_helpers example_rtl))"
  using start_lock_within_activation [of example_rtl example_helpers "[stay]" stay]
    start_lock_within_activation [of example_rtl example_helpers "[stay, move_to 0 0 150]" stay]
  by (simp add: example_sums example_defs step_defs Let_def active_cycles_def return_computed_since_def
      return_advisory_def)

text \<open>
  The claim as it stands fails for an activation that finds the vehicle landed. From the
  constructed object: an activation at altitude 200 enters \<^verbatim>\<open>RTL_STATE_RETURN\<close> and sets the
  lock, \<^verbatim>\<open>on_inactive\<close> resets the phase to \<^verbatim>\<open>RTL_STATE_NONE\<close>, the vehicle touches down, and
  the next activation decides for \<^verbatim>\<open>RTL_STATE_LANDED\<close>: the lock is set after the entry decision
  and after the activation, and no return target was computed in it.
\<close>

theorem start_lock_stale_when_landed:
  "rtl_state (run example_helpers [(move_to 0 0 200, OnActivation), (stay, OnInactive)] example_rtl)
     = RTL_STATE_NONE \<and>
   condition_landed (navigator (surround touch_down
     (run example_helpers [(move_to 0 0 200, OnActivation), (stay, OnInactive)] example_rtl))) \<and>
   rtl_start_lock (on_activation_decide (surround touch_down
     (run example_helpers [(move_to 0 0 200, OnActivation), (stay, OnInactive)] example_rtl))) \<and>
   rtl_state (cycle example_helpers (touch_down, OnActivation)
     (run example_helpers [(move_to 0 0 200, OnActivation), (stay, OnInactive)] example_rtl))
     = RTL_STATE_LANDED \<and>
   rtl_start_lock (cycle example_helpers (touch_down, OnActivation)
     (run example_helpers [(move_to 0 0 200, OnActivation), (stay, OnInactive)] example_rtl)) \<and>
   \<not> return_computed_since
     (length (mavlink_log
       (run example_helpers [(move_to 0 0 200, OnActivation), (stay, OnInactive)] example_rtl)))
     (cycle example_helpers (touch_down, OnActivation)
       (run example_helpers [(move_to 0 0 200, OnActivation), (stay, OnInactive)] example_rtl))"
  by (simp add: example_sums example_defs step_defs Let_def return_computed_since_def return_advisory_def)

text \<open>
  Claim C6. For every controller state, \<^verbatim>\<open>on_inactive\<close> leaves the phase as it is while the
  navigator permits loitering at the setpoint and sets it to \<^verbatim>\<open>RTL_STATE_NONE\<close> while it does
  not; nothing but the phase changes: putting the old phase back gives the old state.
\<close>

theorem on_inactive_resets_phase:
  "rtl_state (on_inactive s) =
     (if can_loiter_at_sp (navigator s) then rtl_state s else RTL_STATE_NONE) \<and>
   (on_inactive s)\<lparr>rtl_state := rtl_state s\<rparr> = s"
  by (simp add: on_inactive_def)

text \<open>
  Claim C7. The target computed in \<^verbatim>\<open>RTL_STATE_RETURN\<close> is at home's latitude and longitude;
  its altitude and the relative-altitude mark are those the item had on entry; its yaw is the
  bearing to home from the previous setpoint when that is valid and from the vehicle's
  position otherwise, the previous setpoint being the one in the triplet during the
  computation (and afterwards): the captured one if the start lock was clear, the old one if
  it was set; the command is waypoint, auto-continue is set, and the start lock is set.
\<close>

theorem return_target:
  "rtl_state s = RTL_STATE_RETURN \<Longrightarrow>
     lat (mission_item (set_rtl_item X s)) = home_lat (home_position (navigator s)) \<and>
     lon (mission_item (set_rtl_item X s)) = home_lon (home_position (navigator s)) \<and>
     altitude (mission_item (set_rtl_item X s)) = altitude (mission_item s) \<and>
     altitude_is_relative (mission_item (set_rtl_item X s)) = altitude_is_relative (mission_item s) \<and>
     yaw (mission_item (set_rtl_item X s)) =
       (if sp_valid (tr_previous (pos_sp_triplet (navigator (set_rtl_item X s))))
        then get_bearing_to_next_waypoint X
               (sp_lat (tr_previous (pos_sp_triplet (navigator (set_rtl_item X s)))))
               (sp_lon (tr_previous (pos_sp_triplet (navigator (set_rtl_item X s)))))
               (home_lat (home_position (navigator s))) (home_lon (home_position (navigator s)))
        else get_bearing_to_next_waypoint X
               (gp_lat (global_position (navigator s))) (gp_lon (global_position (navigator s)))
               (home_lat (home_position (navigator s))) (home_lon (home_position (navigator s)))) \<and>
     tr_previous (pos_sp_triplet (navigator (set_rtl_item X s))) =
       tr_previous (if rtl_start_lock s then pos_sp_triplet (navigator s)
                    else set_previous_pos_setpoint X (pos_sp_triplet (navigator s))) \<and>
     nav_cmd (mission_item (set_rtl_item X s)) = NAV_CMD_WAYPOINT \<and>
     autocontinue (mission_item (set_rtl_item X s)) \<and>
     rtl_start_lock (set_rtl_item X s)"
  by (simp add: mission_item_set_rtl_item switch_return_item head_members head_navigator
      set_rtl_item_lock)
    (simp add: set_rtl_item_def tail_navigator switch_navigator head_members head_navigator)

theorem return_target_witness:
  "rtl_state (example_rtl\<lparr>rtl_state := RTL_STATE_RETURN\<rparr>) = RTL_STATE_RETURN \<and>
   lat (mission_item (set_rtl_item example_helpers (example_rtl\<lparr>rtl_state := RTL_STATE_RETURN\<rparr>)))
     = Fin 0 \<and>
   altitude (mission_item (set_rtl_item example_helpers (example_rtl\<lparr>rtl_state := RTL_STATE_RETURN\<rparr>)))
     = Fin 0 \<and>
   yaw (mission_item (set_rtl_item example_helpers (example_rtl\<lparr>rtl_state := RTL_STATE_RETURN\<rparr>)))
     = Fin 0 \<and>
   nav_cmd (mission_item (set_rtl_item example_helpers (example_rtl\<lparr>rtl_state := RTL_STATE_RETURN\<rparr>)))
     = NAV_CMD_WAYPOINT"
  using return_target [of "example_rtl\<lparr>rtl_state := RTL_STATE_RETURN\<rparr>" example_helpers]
  by (simp add: example_sums example_defs on_inactive_def updateParams_def)

text \<open>
  Claim C8. In every phase the target computation ends as follows, where the state after the
  \<^verbatim>\<open>switch\<close> is the one the first two parts produce: the reach bookkeeping is the reset of
  what it was at the call; the mission item is the one the \<^verbatim>\<open>switch\<close> left; the triplet's current
  setpoint is the conversion of that item, applied to the current setpoint as it was; the next
  setpoint is as it was but invalid; the navigator's updated flag is raised. The navigator
  after the \<^verbatim>\<open>switch\<close> differs from the one at the call in the captured previous setpoint and
  the loiter permission.
\<close>

theorem set_rtl_item_publishes:
  "mission_block (set_rtl_item X s) = reset_mission_item_reached X (mission_block s) \<and>
   mission_item (set_rtl_item X s) = mission_item (set_rtl_item_switch X (set_rtl_item_head X s)) \<and>
   tr_current (pos_sp_triplet (navigator (set_rtl_item X s))) =
     mission_item_to_position_setpoint X
       (navigator (set_rtl_item_switch X (set_rtl_item_head X s)))
       (mission_item (set_rtl_item X s))
       (tr_current (pos_sp_triplet (navigator (set_rtl_item_switch X (set_rtl_item_head X s))))) \<and>
   tr_next (pos_sp_triplet (navigator (set_rtl_item X s))) =
     (tr_next (pos_sp_triplet (navigator (set_rtl_item_switch X (set_rtl_item_head X s)))))
       \<lparr>sp_valid := False\<rparr> \<and>
   \<not> sp_valid (tr_next (pos_sp_triplet (navigator (set_rtl_item X s)))) \<and>
   pos_sp_triplet_updated (navigator (set_rtl_item X s)) \<and>
   navigator (set_rtl_item_switch X (set_rtl_item_head X s)) =
     (navigator s)
       \<lparr>pos_sp_triplet :=
          (if rtl_start_lock s then pos_sp_triplet (navigator s)
           else set_previous_pos_setpoint X (pos_sp_triplet (navigator s))),
        can_loiter_at_sp := (rtl_state s = RTL_STATE_LOITER)\<rparr>"
  by (simp add: set_rtl_item_def tail_members tail_navigator switch_members switch_navigator
      head_members head_navigator)

text \<open>
  Claim C9. The first part of the target computation clears the loiter permission, and after
  the whole computation the permission is set exactly if the phase computed is
  \<^verbatim>\<open>RTL_STATE_LOITER\<close>.
\<close>

theorem can_loiter_only_in_loiter:
  "\<not> can_loiter_at_sp (navigator (set_rtl_item_head X s)) \<and>
   can_loiter_at_sp (navigator (set_rtl_item X s)) = (rtl_state s = RTL_STATE_LOITER)"
  by (simp add: set_rtl_item_def tail_navigator switch_navigator head_members head_navigator)

text \<open>
  Claim C10. In phase \<^verbatim>\<open>RTL_STATE_LANDED\<close> a call of \<^verbatim>\<open>on_active\<close> returns the state it was
  given. In that phase, or when the reach detection answers no, the phase, the start lock, the
  mission item, the navigator with its setpoint triplet, and the log are as before: the state
  differs at most in the base class's reach bookkeeping, which the detection itself may
  update.
\<close>

theorem on_active_idle:
  "(rtl_state s = RTL_STATE_LANDED \<longrightarrow> on_active X s = s) \<and>
   (rtl_state s = RTL_STATE_LANDED \<or>
    \<not> fst (is_mission_item_reached X (navigator s) (mission_item s) (mission_block s)) \<longrightarrow>
      (on_active X s)\<lparr>mission_block := mission_block s\<rparr> = s \<and>
      rtl_state (on_active X s) = rtl_state s \<and>
      rtl_start_lock (on_active X s) = rtl_start_lock s \<and>
      mission_item (on_active X s) = mission_item s \<and>
      pos_sp_triplet (navigator (on_active X s)) = pos_sp_triplet (navigator s) \<and>
      navigator (on_active X s) = navigator s \<and>
      mavlink_log (on_active X s) = mavlink_log s)"
  by (auto simp: on_active_unfold Let_def)

theorem on_active_idle_witness:
  "rtl_state (on_activation example_helpers example_rtl) = RTL_STATE_CLIMB \<and>
   \<not> fst (is_mission_item_reached example_helpers
       (navigator (on_activation example_helpers example_rtl))
       (mission_item (on_activation example_helpers example_rtl))
       (mission_block (on_activation example_helpers example_rtl))) \<and>
   on_active example_helpers (on_activation example_helpers example_rtl)
     = on_activation example_helpers example_rtl \<and>
   on_active example_helpers (example_rtl\<lparr>rtl_state := RTL_STATE_LANDED\<rparr>)
     = example_rtl\<lparr>rtl_state := RTL_STATE_LANDED\<rparr>"
  using on_active_idle [of "on_activation example_helpers example_rtl" example_helpers]
    on_active_idle [of "example_rtl\<lparr>rtl_state := RTL_STATE_LANDED\<rparr>" example_helpers]
  by (simp add: example_sums example_defs step_defs Let_def)

end
